theory Spec2Isabelle
  imports Main "HOL-Library.Char_ord" "HOL-Library.List_Lexorder" "HOL-Library.Product_Lexorder"
begin

section \<open>Strings\<close>

text \<open>
  A JavaScript string is a sequence of UTF-16 code units. The model takes a string to be a
  list of 8-bit characters, read as the code units U+0000 to U+00FF; on such strings the
  functions below compute what the JavaScript built-ins compute.
\<close>

definition startsWith :: "string \<Rightarrow> string \<Rightarrow> bool" where
  "startsWith s p = (take (length p) s = p)"

fun includesStr :: "string \<Rightarrow> string \<Rightarrow> bool" where
  "includesStr [] t = (t = [])"
| "includesStr (c # cs) t = (startsWith (c # cs) t \<or> includesStr cs t)"

fun join :: "string \<Rightarrow> string list \<Rightarrow> string" where
  "join sep [] = []"
| "join sep [x] = x"
| "join sep (x # y # ys) = x @ sep @ join sep (y # ys)"

definition isLineTerminator :: "char \<Rightarrow> bool" where
  "isLineTerminator c = (c = CHR 0x0A \<or> c = CHR 0x0D)"

section \<open>JavaScript string operations\<close>

text \<open>The characters \<open>\s\<close> matches and \<open>trim\<close> strips, among U+0000 to U+00FF: tab, line
  feed, vertical tab, form feed, carriage return, space and no-break space.\<close>

definition isSpaceJS :: "char \<Rightarrow> bool" where
  "isSpaceJS c = (c = CHR 0x09 \<or> c = CHR 0x0A \<or> c = CHR 0x0B \<or> c = CHR 0x0C \<or> c = CHR 0x0D
                  \<or> c = CHR 0x20 \<or> c = CHR 0xA0)"

text \<open>The characters \<open>\w\<close> matches: \<open>[A-Za-z0-9_]\<close>.\<close>

definition isWordChar :: "char \<Rightarrow> bool" where
  "isWordChar c = (let n = (of_char c :: nat) in
      (48 \<le> n \<and> n \<le> 57) \<or> (65 \<le> n \<and> n \<le> 90) \<or> n = 95 \<or> (97 \<le> n \<and> n \<le> 122))"

text \<open>\<open>toLowerCase\<close>: the upper-case letters among U+0000 to U+00FF are A to Z and U+00C0 to
  U+00DE without the multiplication sign U+00D7; the lower-case letter of each is 32 code
  units later, which is the same code with bit 5 set.\<close>

definition isUpperChar :: "char \<Rightarrow> bool" where
  "isUpperChar c = (let n = (of_char c :: nat) in
      (65 \<le> n \<and> n \<le> 90) \<or> (192 \<le> n \<and> n \<le> 222 \<and> n \<noteq> 215))"

fun setBit5 :: "char \<Rightarrow> char" where
  "setBit5 (Char b0 b1 b2 b3 b4 b5 b6 b7) = Char b0 b1 b2 b3 b4 True b6 b7"

definition toLowerChar :: "char \<Rightarrow> char" where
  "toLowerChar c = (if isUpperChar c then setBit5 c else c)"

definition toLowerCase :: "string \<Rightarrow> string" where
  "toLowerCase s = map toLowerChar s"

definition trim :: "string \<Rightarrow> string" where
  "trim s = rev (dropWhile isSpaceJS (rev (dropWhile isSpaceJS s)))"

text \<open>\<open>s.split(sep)\<close> for a separator of one character.\<close>

fun splitChar :: "char \<Rightarrow> string \<Rightarrow> string list" where
  "splitChar sep [] = [[]]"
| "splitChar sep (c # cs) =
     (if c = sep then [] # splitChar sep cs
      else (case splitChar sep cs of [] \<Rightarrow> [[c]] | p # ps \<Rightarrow> (c # p) # ps))"

text \<open>\<open>s.split(/\s+/)\<close>: the pieces between the maximal runs of white space.\<close>

function splitSpaces :: "string \<Rightarrow> string list" where
  "splitSpaces [] = [[]]"
| "splitSpaces (c # cs) =
     (if isSpaceJS c then [] # splitSpaces (dropWhile isSpaceJS cs)
      else (case splitSpaces cs of [] \<Rightarrow> [[c]] | p # ps \<Rightarrow> (c # p) # ps))"
  by pat_completeness auto
termination
  by (relation "measure length") (auto simp: length_dropWhile_le less_Suc_eq_le)

text \<open>\<open>s.indexOf(t)\<close>, with \<open>None\<close> for -1.\<close>

fun indexFrom :: "nat \<Rightarrow> string \<Rightarrow> string \<Rightarrow> nat option" where
  "indexFrom i [] t = (if t = [] then Some i else None)"
| "indexFrom i (c # cs) t = (if startsWith (c # cs) t then Some i else indexFrom (Suc i) cs t)"

definition indexOf :: "string \<Rightarrow> string \<Rightarrow> nat option" where
  "indexOf s t = indexFrom 0 s t"

text \<open>\<open>s.slice(a, b)\<close> for indices that are not negative.\<close>

definition slice :: "string \<Rightarrow> nat \<Rightarrow> nat \<Rightarrow> string" where
  "slice s a b = take (b - a) (drop a s)"

section \<open>Guide parser (parse-markdown.ts)\<close>

record doc_chunk =
  dc_title :: string
  dc_content :: string
  dc_headingLevel :: nat
  dc_package :: string
  dc_category :: string
  dc_filePath :: string
  dc_sourceUrl :: string

text \<open>
  The markdown tree is the value remark-parse returns (an mdast tree); the parser
  itself is a library outside the repository, so the tree is the input of the model.
  \<open>Literal\<close> stands for every node with a \<open>value\<close> field other than a code block
  (text, inline code, html), \<open>Parent\<close> for every other node with children (emphasis,
  strong, link, table, ...), \<open>Leaf\<close> for a node with neither (thematic break, break).
\<close>

datatype mdnode =
  Root "mdnode list"
| Heading nat "mdnode list"
| Paragraph "mdnode list"
| Code "string option" string
| ListNode "mdnode list"
| ListItem "mdnode list"
| Blockquote "mdnode list"
| Literal string
| Image string
| Parent "mdnode list"
| Leaf

text \<open>\<open>toString\<close> of mdast-util-to-string: the node's value, else its alt text, else the
  concatenation over its children.\<close>

fun toString :: "mdnode \<Rightarrow> string" where
  "toString (Root cs) = concat (map toString cs)"
| "toString (Heading d cs) = concat (map toString cs)"
| "toString (Paragraph cs) = concat (map toString cs)"
| "toString (Code lang v) = v"
| "toString (ListNode cs) = concat (map toString cs)"
| "toString (ListItem cs) = concat (map toString cs)"
| "toString (Blockquote cs) = concat (map toString cs)"
| "toString (Literal v) = v"
| "toString (Image a) = a"
| "toString (Parent cs) = concat (map toString cs)"
| "toString Leaf = []"

text \<open>\<open>visit\<close> of unist-util-visit calls the visitor on every node of the tree, parents
  before children, children left to right; \<open>visit_order\<close> is that sequence of nodes.\<close>

fun visit_order :: "mdnode \<Rightarrow> mdnode list" where
  "visit_order (Root cs) = Root cs # concat (map visit_order cs)"
| "visit_order (Heading d cs) = Heading d cs # concat (map visit_order cs)"
| "visit_order (Paragraph cs) = Paragraph cs # concat (map visit_order cs)"
| "visit_order (ListNode cs) = ListNode cs # concat (map visit_order cs)"
| "visit_order (ListItem cs) = ListItem cs # concat (map visit_order cs)"
| "visit_order (Blockquote cs) = Blockquote cs # concat (map visit_order cs)"
| "visit_order (Parent cs) = Parent cs # concat (map visit_order cs)"
| "visit_order n = [n]"

definition listToString :: "mdnode list \<Rightarrow> string" where
  "listToString items = join [CHR 0x0A] (map (\<lambda>item. ''- '' @ toString item) items)"

definition detectPackage :: "string \<Rightarrow> string" where
  "detectPackage fp =
     (if includesStr fp ''chain-api-docs'' then ''chain-api''
      else if includesStr fp ''chain-client-docs'' then ''chain-client''
      else if includesStr fp ''chain-test-docs'' then ''chain-test''
      else if includesStr fp ''chaincode-docs'' then ''chaincode''
      else if includesStr fp ''chain-cli'' then ''chain-cli''
      else ''guides'')"

definition detectCategory :: "string \<Rightarrow> string" where
  "detectCategory fp =
     (if includesStr fp ''-docs/'' then ''api''
      else if includesStr fp ''getting-started'' then ''tutorial''
      else if includesStr fp ''from-zero'' then ''tutorial''
      else if includesStr fp ''README'' then ''reference''
      else if includesStr fp ''CLAUDE'' then ''reference''
      else if includesStr fp ''BREAKING'' then ''reference''
      else ''guide'')"

text \<open>The pattern \<open>/galachain-sdk[\/\\](.+)$/\<close>: the leftmost \<open>galachain-sdk\<close> followed by a
  slash or backslash and then by at least one character, none of them a line terminator,
  up to the end of the string. The result is the captured rest.\<close>

fun sdkRelative :: "string \<Rightarrow> string option" where
  "sdkRelative [] = None"
| "sdkRelative (c # cs) =
     (let s = c # cs; r = drop 14 s in
      if startsWith s ''galachain-sdk'' \<and> length s > 13
         \<and> (s ! 13 = CHR ''/'' \<or> s ! 13 = CHR 0x5C)
         \<and> r \<noteq> [] \<and> \<not> list_ex isLineTerminator r
      then Some r else sdkRelative cs)"

definition filePathToUrl :: "string \<Rightarrow> string \<Rightarrow> string" where
  "filePathToUrl fp pkg =
     (case sdkRelative fp of
        Some r \<Rightarrow> ''https://github.com/GalaChain/sdk/blob/main/''
                  @ map (\<lambda>c. if c = CHR 0x5C then CHR ''/'' else c) r
      | None \<Rightarrow> ''https://docs.galachain.com/'')"

text \<open>The three variables the visitor closes over, and the chunks pushed so far.\<close>

record parse_state =
  chunks :: "doc_chunk list"
  currentHeading :: string
  currentLevel :: nat
  currentContent :: "string list"

definition saveChunk :: "string \<Rightarrow> parse_state \<Rightarrow> parse_state" where
  "saveChunk fp st =
     (if currentHeading st \<noteq> [] \<and> length (currentContent st) > 0
      then st\<lparr>chunks := chunks st @
             [\<lparr>dc_title = currentHeading st,
               dc_content = join [CHR 0x0A, CHR 0x0A] (currentContent st),
               dc_headingLevel = currentLevel st,
               dc_package = detectPackage fp,
               dc_category = detectCategory fp,
               dc_filePath = fp,
               dc_sourceUrl = filePathToUrl fp (detectPackage fp)\<rparr>]\<rparr>
      else st)"

definition pushContent :: "string \<Rightarrow> parse_state \<Rightarrow> parse_state" where
  "pushContent s st = st\<lparr>currentContent := currentContent st @ [s]\<rparr>"

fun visitor :: "string \<Rightarrow> parse_state \<Rightarrow> mdnode \<Rightarrow> parse_state" where
  "visitor fp st (Heading d cs) =
     (saveChunk fp st)\<lparr>currentHeading := toString (Heading d cs),
                       currentLevel := d, currentContent := []\<rparr>"
| "visitor fp st (Paragraph cs) = pushContent (toString (Paragraph cs)) st"
| "visitor fp st (Code lang v) =
     pushContent (''```'' @ (case lang of None \<Rightarrow> [] | Some l \<Rightarrow> l) @ [CHR 0x0A] @ v
                  @ [CHR 0x0A] @ ''```'') st"
| "visitor fp st (ListNode cs) = pushContent (listToString cs) st"
| "visitor fp st (Blockquote cs) = pushContent (''> '' @ toString (Blockquote cs)) st"
| "visitor fp st n = st"

definition initialState :: parse_state where
  "initialState = \<lparr>chunks = [], currentHeading = [], currentLevel = 1, currentContent = []\<rparr>"

definition parseMarkdown :: "mdnode \<Rightarrow> string \<Rightarrow> doc_chunk list" where
  "parseMarkdown tree fp =
     chunks (saveChunk fp (foldl (visitor fp) initialState (visit_order tree)))"

subsection \<open>The heading sections of a document, as the specification describes them\<close>

fun isHeading :: "mdnode \<Rightarrow> bool" where
  "isHeading (Heading d cs) = True"
| "isHeading n = False"

fun isContentBlock :: "mdnode \<Rightarrow> bool" where
  "isContentBlock (Paragraph cs) = True"
| "isContentBlock (Code lang v) = True"
| "isContentBlock (ListNode cs) = True"
| "isContentBlock (Blockquote cs) = True"
| "isContentBlock n = False"

text \<open>The rendered text of a content block.\<close>

fun blockText :: "mdnode \<Rightarrow> string" where
  "blockText (Code lang v) =
     ''```'' @ (case lang of None \<Rightarrow> [] | Some l \<Rightarrow> l) @ [CHR 0x0A] @ v @ [CHR 0x0A] @ ''```''"
| "blockText (ListNode cs) = listToString cs"
| "blockText (Blockquote cs) = ''> '' @ toString (Blockquote cs)"
| "blockText n = toString n"

record heading_section =
  sectionHeading :: string
  sectionLevel :: nat
  sectionBlocks :: "mdnode list"

text \<open>A heading section is a heading together with the content blocks that follow it in
  document order before the next heading; what precedes the first heading is in no section.\<close>

fun sectionsOf :: "mdnode list \<Rightarrow> heading_section list" where
  "sectionsOf [] = []"
| "sectionsOf (Heading d cs # ns) =
     \<lparr>sectionHeading = toString (Heading d cs), sectionLevel = d,
      sectionBlocks = filter isContentBlock (takeWhile (\<lambda>n. \<not> isHeading n) ns)\<rparr>
     # sectionsOf ns"
| "sectionsOf (n # ns) = sectionsOf ns"

definition chunkOfSection :: "string \<Rightarrow> heading_section \<Rightarrow> doc_chunk" where
  "chunkOfSection fp s =
     \<lparr>dc_title = sectionHeading s,
      dc_content = join [CHR 0x0A, CHR 0x0A] (map blockText (sectionBlocks s)),
      dc_headingLevel = sectionLevel s,
      dc_package = detectPackage fp,
      dc_category = detectCategory fp,
      dc_filePath = fp,
      dc_sourceUrl = filePathToUrl fp (detectPackage fp)\<rparr>"

definition emitsChunk :: "heading_section \<Rightarrow> bool" where
  "emitsChunk s = (sectionHeading s \<noteq> [] \<and> sectionBlocks s \<noteq> [])"

text \<open>The chunk the open section of a state gives once the blocks \<open>extra\<close> are added to
  it and it is flushed (the empty list if it gives none).\<close>

definition pendingChunk :: "string \<Rightarrow> parse_state \<Rightarrow> string list \<Rightarrow> doc_chunk list" where
  "pendingChunk fp st extra =
     chunks (saveChunk fp (st\<lparr>chunks := [], currentContent := currentContent st @ extra\<rparr>))"

section \<open>Relevance score and snippets (queries.ts)\<close>

text \<open>A word boundary \<open>\b\<close> at position \<open>i\<close> of \<open>s\<close>: exactly one of the characters before
  and after the position is a word character (the ends of the string count as none).\<close>

definition wordCharAt :: "string \<Rightarrow> nat \<Rightarrow> bool" where
  "wordCharAt s i = (i < length s \<and> isWordChar (s ! i))"

definition wordBoundary :: "string \<Rightarrow> nat \<Rightarrow> bool" where
  "wordBoundary s i = ((i > 0 \<and> wordCharAt s (i - 1)) \<noteq> wordCharAt s i)"

text \<open>The pattern built by \<open>new RegExp('\\b' + escapeRegex(term) + '\\b', 'i')\<close>: after
  escaping, the term stands for its own characters, compared without regard to case,
  between two word boundaries. Two code units up to U+00FF are equal without regard to case
  exactly when their lower-case letters are equal.\<close>

definition wordMatchAt :: "string \<Rightarrow> string \<Rightarrow> nat \<Rightarrow> bool" where
  "wordMatchAt text term i =
     (i + length term \<le> length text
      \<and> toLowerCase (take (length term) (drop i text)) = toLowerCase term
      \<and> wordBoundary text i \<and> wordBoundary text (i + length term))"

definition wordRegexTest :: "string \<Rightarrow> string \<Rightarrow> bool" where
  "wordRegexTest text term = list_ex (wordMatchAt text term) [0..<Suc (length text)]"

definition firstWordOf :: "string \<Rightarrow> string" where
  "firstWordOf text = toLowerCase (hd (splitSpaces text))"

text \<open>One pass of the loop over the terms.\<close>

definition relevanceStep :: "string \<Rightarrow> int \<Rightarrow> string \<Rightarrow> int" where
  "relevanceStep text score term =
     (let score1 = (if wordRegexTest text term then score - 20
                    else if includesStr (toLowerCase text) term then score - 10
                    else score);
          firstWord = firstWordOf text
      in if firstWord = term \<or> includesStr firstWord term then score1 - 30 else score1)"

definition calculateRelevance :: "string \<Rightarrow> string list \<Rightarrow> int" where
  "calculateRelevance text terms =
     (let score = foldl (relevanceStep text) 100 terms;
          score = (if length text < 100 then score - 5 else score);
          score = (if length text < 50 then score - 5 else score)
      in max 0 score)"

text \<open>The smaller of the positions at which some term first occurs.\<close>

definition snippetStep :: "string \<Rightarrow> nat option \<Rightarrow> string \<Rightarrow> nat option" where
  "snippetStep lowerContent matchIndex term =
     (case indexOf lowerContent term of
        None \<Rightarrow> matchIndex
      | Some idx \<Rightarrow> (case matchIndex of None \<Rightarrow> Some idx
                     | Some m \<Rightarrow> if idx < m then Some idx else Some m))"

definition createSnippet :: "string \<Rightarrow> string list \<Rightarrow> string" where
  "createSnippet content terms =
     (let maxLen = 150 in
      case foldl (snippetStep (toLowerCase content)) None terms of
        None \<Rightarrow> slice content 0 maxLen @ (if length content > maxLen then ''...'' else [])
      | Some matchIndex \<Rightarrow>
          (let start = matchIndex - 40;
               end' = min (length content) (matchIndex + maxLen - 40);
               snippet = slice content start end';
               snippet = (if start > 0 then ''...'' @ snippet else snippet)
           in if end' < length content then snippet @ ''...'' else snippet))"

text \<open>The score as the specification words it, before any clamping: 100, minus 20 for each
  term that occurs as a whole word, else minus 10 if it occurs as a substring of the
  lower-cased text, minus 30 for each term the first word equals or contains, minus 5 for
  a text under 100 characters and 5 more under 50.\<close>

definition occursAsSubstring :: "string \<Rightarrow> string \<Rightarrow> bool" where
  "occursAsSubstring text term = includesStr (toLowerCase text) term"

definition firstWordHas :: "string \<Rightarrow> string \<Rightarrow> bool" where
  "firstWordHas text term = (firstWordOf text = term \<or> includesStr (firstWordOf text) term)"

definition statedScore :: "string \<Rightarrow> string list \<Rightarrow> int" where
  "statedScore text terms =
     100 - 20 * int (length (filter (wordRegexTest text) terms))
         - 10 * int (length (filter (\<lambda>t. \<not> wordRegexTest text t \<and> occursAsSubstring text t) terms))
         - 30 * int (length (filter (firstWordHas text) terms))
         - (if length text < 100 then 5 else 0)
         - (if length text < 50 then 5 else 0)"

section \<open>The store (schema.ts, wrapper.ts)\<close>

text \<open>
  The SQL engine is a library; the model keeps each table as the list of its rows in rowid
  order, which is the order of insertion. A \<open>SELECT\<close> without \<open>ORDER BY\<close> is taken to return
  the rows that satisfy its \<open>WHERE\<close> clause in that order, a join in the order of the rows
  of its first table. Columns the index builder may fill with \<open>null\<close> are options.
\<close>

record doc_row =
  dr_id :: nat
  dr_package :: string
  dr_category :: string
  dr_title :: string
  dr_content :: string
  dr_heading_level :: nat
  dr_source_url :: string
  dr_file_path :: string
  dr_search_text :: string

record class_row =
  cr_id :: nat
  cr_package :: string
  cr_name :: string
  cr_type :: string
  cr_description :: string
  cr_extends_clause :: "string option"
  cr_implements_clause :: string
  cr_decorators :: string
  cr_source_url :: string
  cr_file_path :: string
  cr_search_text :: string

record member_row =
  mr_id :: nat
  mr_class_id :: nat
  mr_name :: string
  mr_type :: string
  mr_signature :: string
  mr_visibility :: string
  mr_is_static :: nat
  mr_is_async :: nat
  mr_description :: string
  mr_params :: string
  mr_returns :: "string option"
  mr_decorators :: string
  mr_example_code :: "string option"
  mr_search_text :: string

record database =
  db_docs :: "doc_row list"
  db_classes :: "class_row list"
  db_members :: "member_row list"

text \<open>\<open>LIKE\<close> of SQLite: \<open>%\<close> stands for any sequence of characters, \<open>_\<close> for any one
  character, and every other character for itself, the letters A to Z without regard to
  case.\<close>

definition likeEqChar :: "char \<Rightarrow> char \<Rightarrow> bool" where
  "likeEqChar a b =
     ((if 65 \<le> (of_char a :: nat) \<and> (of_char a :: nat) \<le> 90 then setBit5 a else a)
      = (if 65 \<le> (of_char b :: nat) \<and> (of_char b :: nat) \<le> 90 then setBit5 b else b))"

fun sqlLike :: "string \<Rightarrow> string \<Rightarrow> bool" where
  "sqlLike [] s = (s = [])"
| "sqlLike (p # ps) [] = (p = CHR ''%'' \<and> sqlLike ps [])"
| "sqlLike (p # ps) (c # cs) =
     (if p = CHR ''%'' then sqlLike ps (c # cs) \<or> sqlLike (p # ps) cs
      else if p = CHR ''_'' then sqlLike ps cs
      else likeEqChar p c \<and> sqlLike ps cs)"

text \<open>\<open>LIMIT n\<close>: a negative \<open>n\<close> is no limit.\<close>

definition sqlLimit :: "int \<Rightarrow> 'a list \<Rightarrow> 'a list" where
  "sqlLimit n rows = (if n < 0 then rows else take (nat n) rows)"

text \<open>The conjunction of one \<open>search_text LIKE '%term%'\<close> per term.\<close>

definition likeAll :: "string list \<Rightarrow> string \<Rightarrow> bool" where
  "likeAll terms searchText = list_all (\<lambda>t. sqlLike (''%'' @ t @ ''%'') searchText) terms"

text \<open>\<open>FROM members m JOIN classes c ON m.class_id = c.id\<close>.\<close>

definition memberJoin :: "database \<Rightarrow> (member_row \<times> class_row) list" where
  "memberJoin db =
     concat (map (\<lambda>m. map (\<lambda>c. (m, c)) (filter (\<lambda>c. cr_id c = mr_class_id m) (db_classes db)))
               (db_members db))"

section \<open>Search (queries.ts, tools/search.ts)\<close>

record search_result =
  sr_id :: nat
  sr_title :: string
  sr_snippet :: string
  sr_package :: string
  sr_category :: string
  sr_type :: string
  sr_sourceUrl :: string
  sr_rank :: int

definition searchTerms :: "string \<Rightarrow> string list" where
  "searchTerms query = filter (\<lambda>t. length t > 0) (splitSpaces (toLowerCase query))"

definition docResults :: "database \<Rightarrow> string list \<Rightarrow> string \<Rightarrow> int \<Rightarrow> search_result list" where
  "docResults db terms pkg limit =
     map (\<lambda>row. \<lparr>sr_id = dr_id row, sr_title = dr_title row,
                  sr_snippet = createSnippet (dr_content row) terms,
                  sr_package = dr_package row, sr_category = dr_category row,
                  sr_type = ''doc'', sr_sourceUrl = dr_source_url row,
                  sr_rank = calculateRelevance (dr_title row @ '' '' @ dr_content row) terms\<rparr>)
       (sqlLimit limit
          (filter (\<lambda>row. likeAll terms (dr_search_text row)
                          \<and> (pkg = ''all'' \<or> dr_package row = pkg))
             (db_docs db)))"

definition classResults ::
  "database \<Rightarrow> string list \<Rightarrow> string \<Rightarrow> string \<Rightarrow> int \<Rightarrow> search_result list" where
  "classResults db terms pkg type limit =
     map (\<lambda>row. \<lparr>sr_id = cr_id row, sr_title = cr_name row,
                  sr_snippet = (if cr_description row \<noteq> []
                                then createSnippet (cr_description row) terms
                                else cr_type row @ '' in '' @ cr_package row),
                  sr_package = cr_package row, sr_category = cr_type row,
                  sr_type = ''class'', sr_sourceUrl = cr_source_url row,
                  sr_rank = calculateRelevance (cr_name row @ '' '' @ cr_description row) terms\<rparr>)
       (sqlLimit limit
          (filter (\<lambda>row. likeAll terms (cr_search_text row)
                          \<and> (pkg = ''all'' \<or> cr_package row = pkg)
                          \<and> (type = ''all'' \<or> type = ''class'' \<or> cr_type row = type))
             (db_classes db)))"

definition memberResults :: "database \<Rightarrow> string list \<Rightarrow> string \<Rightarrow> int \<Rightarrow> search_result list" where
  "memberResults db terms pkg limit =
     map (\<lambda>(m, c). \<lparr>sr_id = mr_id m, sr_title = cr_name c @ ''.'' @ mr_name m,
                  sr_snippet = (if mr_description m \<noteq> []
                                then createSnippet (mr_description m) terms
                                else if mr_signature m \<noteq> [] then mr_signature m
                                else mr_type m @ '' in '' @ cr_name c),
                  sr_package = cr_package c, sr_category = mr_type m,
                  sr_type = ''method'', sr_sourceUrl = cr_source_url c,
                  sr_rank = calculateRelevance
                              (mr_name m @ '' '' @ mr_description m @ '' '' @ mr_signature m) terms\<rparr>)
       (sqlLimit limit
          (filter (\<lambda>(m, c). likeAll terms (mr_search_text m)
                          \<and> (pkg = ''all'' \<or> cr_package c = pkg))
             (memberJoin db)))"

text \<open>\<open>results.slice(0, limit)\<close>: a negative limit counts from the end.\<close>

definition sliceTo :: "int \<Rightarrow> 'a list \<Rightarrow> 'a list" where
  "sliceTo n xs = (if n < 0 then take (length xs - nat (- n)) xs else take (nat n) xs)"

definition searchDocs :: "database \<Rightarrow> string \<Rightarrow> string \<Rightarrow> string \<Rightarrow> int \<Rightarrow> search_result list" where
  "searchDocs db query pkg type limit =
     (let terms = searchTerms query in
      if length terms = 0 then []
      else
        let results =
              (if type = ''all'' \<or> type = ''guide'' then docResults db terms pkg limit else [])
              @ (if type = ''all'' \<or> type = ''class'' \<or> type = ''interface''
                 then classResults db terms pkg type limit else [])
              @ (if type = ''all'' \<or> type = ''method''
                 then memberResults db terms pkg limit else [])
        in sliceTo limit (sort_key sr_rank results))"

section \<open>JSON text (JSON.stringify, JSON.parse)\<close>

text \<open>
  A JSON value. A number keeps the text of its literal (no stored field is a number, and
  no property below reads one); an object keeps its members in the order of the text.
\<close>

datatype json =
  JNull
| JBool bool
| JNum string
| JStr string
| JArr "json list"
| JObj "(string \<times> json) list"

definition hexDigit :: "nat \<Rightarrow> char" where
  "hexDigit n = ''0123456789abcdef'' ! n"

text \<open>The escape \<open>JSON.stringify\<close> writes for one character of a string.\<close>

definition escapeChar :: "char \<Rightarrow> string" where
  "escapeChar c =
     (if c = CHR 0x08 then [CHR 0x5C, CHR ''b'']
      else if c = CHR 0x09 then [CHR 0x5C, CHR ''t'']
      else if c = CHR 0x0A then [CHR 0x5C, CHR ''n'']
      else if c = CHR 0x0C then [CHR 0x5C, CHR ''f'']
      else if c = CHR 0x0D then [CHR 0x5C, CHR ''r'']
      else if c = CHR 0x22 then [CHR 0x5C, CHR 0x22]
      else if c = CHR 0x5C then [CHR 0x5C, CHR 0x5C]
      else if (of_char c :: nat) < 32
        then [CHR 0x5C, CHR ''u'', CHR ''0'', CHR ''0'',
              hexDigit ((of_char c :: nat) div 16), hexDigit ((of_char c :: nat) mod 16)]
      else [c])"

definition quoteJSONString :: "string \<Rightarrow> string" where
  "quoteJSONString s = [CHR 0x22] @ concat (map escapeChar s) @ [CHR 0x22]"

fun stringify :: "json \<Rightarrow> string" where
  "stringify JNull = ''null''"
| "stringify (JBool b) = (if b then ''true'' else ''false'')"
| "stringify (JNum t) = t"
| "stringify (JStr s) = quoteJSONString s"
| "stringify (JArr vs) = ''['' @ join '','' (map stringify vs) @ '']''"
| "stringify (JObj kvs) =
     ''{'' @ join '','' (map (\<lambda>kv. quoteJSONString (fst kv) @ '':'' @ stringify (snd kv)) kvs)
     @ ''}''"

definition isJsonSpace :: "char \<Rightarrow> bool" where
  "isJsonSpace c = (c = CHR 0x20 \<or> c = CHR 0x09 \<or> c = CHR 0x0A \<or> c = CHR 0x0D)"

definition skipSpace :: "string \<Rightarrow> string" where
  "skipSpace s = dropWhile isJsonSpace s"

definition isDigit :: "char \<Rightarrow> bool" where
  "isDigit c = (48 \<le> (of_char c :: nat) \<and> (of_char c :: nat) \<le> 57)"

definition hexVal :: "char \<Rightarrow> nat option" where
  "hexVal c = (let n = (of_char c :: nat) in
      if 48 \<le> n \<and> n \<le> 57 then Some (n - 48)
      else if 97 \<le> n \<and> n \<le> 102 then Some (n - 87)
      else if 65 \<le> n \<and> n \<le> 70 then Some (n - 55)
      else None)"

text \<open>The character a one-letter escape stands for.\<close>

definition unescape :: "char \<Rightarrow> char option" where
  "unescape e =
     (if e = CHR 0x22 then Some (CHR 0x22)
      else if e = CHR 0x5C then Some (CHR 0x5C)
      else if e = CHR ''/'' then Some (CHR ''/'')
      else if e = CHR ''b'' then Some (CHR 0x08)
      else if e = CHR ''f'' then Some (CHR 0x0C)
      else if e = CHR ''n'' then Some (CHR 0x0A)
      else if e = CHR ''r'' then Some (CHR 0x0D)
      else if e = CHR ''t'' then Some (CHR 0x09)
      else None)"

definition consChar :: "char \<Rightarrow> (string \<times> string) option \<Rightarrow> (string \<times> string) option" where
  "consChar c r = (case r of None \<Rightarrow> None | Some (s, rest) \<Rightarrow> Some (c # s, rest))"

text \<open>The characters of a string literal after its opening quote, up to the closing quote:
  the string and the text after it. A \<open>\u\<close> escape above U+00FF has no character in the
  model and is refused.\<close>

fun parseChars :: "string \<Rightarrow> (string \<times> string) option" where
  "parseChars [] = None"
| "parseChars (c # cs) =
     (if c = CHR 0x22 then Some ([], cs)
      else if c = CHR 0x5C then
        (case cs of
           [] \<Rightarrow> None
         | e # r \<Rightarrow>
             if e = CHR ''u'' then
               (case r of
                  h1 # h2 # h3 # h4 # r' \<Rightarrow>
                    (case (hexVal h1, hexVal h2, hexVal h3, hexVal h4) of
                       (Some a, Some b, Some x, Some y) \<Rightarrow>
                         (if a = 0 \<and> b = 0 then consChar (char_of (16 * x + y)) (parseChars r')
                          else None)
                     | _ \<Rightarrow> None)
                | _ \<Rightarrow> None)
             else (case unescape e of
                     None \<Rightarrow> None
                   | Some ch \<Rightarrow> consChar ch (parseChars r)))
      else if (of_char c :: nat) < 32 then None
      else consChar c (parseChars cs))"

text \<open>A number literal: \<open>-?(0|[1-9][0-9]*)(\.[0-9]+)?([eE][+-]?[0-9]+)?\<close>.\<close>

definition parseNumber :: "string \<Rightarrow> (string \<times> string) option" where
  "parseNumber s =
     (let (sign, r0) = (case s of c # cs \<Rightarrow> if c = CHR ''-'' then ([c], cs) else ([], s)
                                | [] \<Rightarrow> ([], s)) in
      case (case r0 of
              [] \<Rightarrow> None
            | d # r \<Rightarrow> if d = CHR ''0'' then Some ([d], r)
                       else if isDigit d then Some (d # takeWhile isDigit r, dropWhile isDigit r)
                       else None) of
        None \<Rightarrow> None
      | Some (ip, r1) \<Rightarrow>
          (case (case r1 of
                   [] \<Rightarrow> Some ([], r1)
                 | p # r \<Rightarrow> if p = CHR ''.''
                            then (if takeWhile isDigit r = [] then None
                                  else Some (p # takeWhile isDigit r, dropWhile isDigit r))
                            else Some ([], r1)) of
             None \<Rightarrow> None
           | Some (fp, r2) \<Rightarrow>
               (case r2 of
                  [] \<Rightarrow> Some (sign @ ip @ fp, r2)
                | e # r \<Rightarrow>
                    if e = CHR ''e'' \<or> e = CHR ''E'' then
                      (let (sg, r3) = (case r of c # cs \<Rightarrow>
                                         if c = CHR ''+'' \<or> c = CHR ''-'' then ([c], cs) else ([], r)
                                       | [] \<Rightarrow> ([], r)) in
                       if takeWhile isDigit r3 = [] then None
                       else Some (sign @ ip @ fp @ [e] @ sg @ takeWhile isDigit r3,
                                  dropWhile isDigit r3))
                    else Some (sign @ ip @ fp, r2))))"

text \<open>The recursive-descent reading of a value, of the elements of an array up to its
  closing bracket, and of the members of an object up to its closing brace; each gives
  what it read and the text after it.\<close>

function parseValue :: "string \<Rightarrow> (json \<times> string) option"
  and parseElements :: "string \<Rightarrow> (json list \<times> string) option"
  and parseObjectMembers :: "string \<Rightarrow> ((string \<times> json) list \<times> string) option"
where
  "parseValue s =
     (case skipSpace s of
        [] \<Rightarrow> None
      | c # cs \<Rightarrow>
          if c = CHR 0x22 then
            (case parseChars cs of None \<Rightarrow> None | Some (t, r) \<Rightarrow> Some (JStr t, r))
          else if c = CHR ''['' then
            (case skipSpace cs of
               [] \<Rightarrow> None
             | d # ds \<Rightarrow>
                 if d = CHR '']'' then Some (JArr [], ds)
                 else if length cs < length s then
                   (case parseElements cs of None \<Rightarrow> None | Some (vs, r) \<Rightarrow> Some (JArr vs, r))
                 else None)
          else if c = CHR ''{'' then
            (case skipSpace cs of
               [] \<Rightarrow> None
             | d # ds \<Rightarrow>
                 if d = CHR ''}'' then Some (JObj [], ds)
                 else if length cs < length s then
                   (case parseObjectMembers cs of None \<Rightarrow> None | Some (kvs, r) \<Rightarrow> Some (JObj kvs, r))
                 else None)
          else if startsWith (c # cs) ''true'' then Some (JBool True, drop 4 (c # cs))
          else if startsWith (c # cs) ''false'' then Some (JBool False, drop 5 (c # cs))
          else if startsWith (c # cs) ''null'' then Some (JNull, drop 4 (c # cs))
          else (case parseNumber (c # cs) of None \<Rightarrow> None | Some (t, r) \<Rightarrow> Some (JNum t, r)))"
| "parseElements s =
     (case parseValue s of
        None \<Rightarrow> None
      | Some (v, r) \<Rightarrow>
          (case skipSpace r of
             [] \<Rightarrow> None
           | d # ds \<Rightarrow>
               if d = CHR '','' then
                 (if length ds < length s then
                    (case parseElements ds of None \<Rightarrow> None | Some (vs, r') \<Rightarrow> Some (v # vs, r'))
                  else None)
               else if d = CHR '']'' then Some ([v], ds)
               else None))"
| "parseObjectMembers s =
     (case skipSpace s of
        [] \<Rightarrow> None
      | q # cs \<Rightarrow>
          if q = CHR 0x22 then
            (case parseChars cs of
               None \<Rightarrow> None
             | Some (k, r) \<Rightarrow>
                 (case skipSpace r of
                    [] \<Rightarrow> None
                  | col # r1 \<Rightarrow>
                      if col = CHR '':'' \<and> length r1 < length s then
                        (case parseValue r1 of
                           None \<Rightarrow> None
                         | Some (v, r2) \<Rightarrow>
                             (case skipSpace r2 of
                                [] \<Rightarrow> None
                              | d # ds \<Rightarrow>
                                  if d = CHR '','' then
                                    (if length ds < length s then
                                       (case parseObjectMembers ds of
                                          None \<Rightarrow> None
                                        | Some (kvs, r') \<Rightarrow> Some ((k, v) # kvs, r'))
                                     else None)
                                  else if d = CHR ''}'' then Some ([(k, v)], ds)
                                  else None))
                      else None))
          else None)"
  by pat_completeness auto
termination
  by (relation "measure (\<lambda>x. case x of Inl s \<Rightarrow> 2 * length s
                                      | Inr (Inl s) \<Rightarrow> 2 * length s + 1
                                      | Inr (Inr s) \<Rightarrow> 2 * length s + 1)") auto

declare parseValue.simps [simp del] parseElements.simps [simp del] parseObjectMembers.simps [simp del]

text \<open>\<open>JSON.parse\<close>: one value with nothing but white space after it; \<open>None\<close> is the
  SyntaxError.\<close>

definition jsonParse :: "string \<Rightarrow> json option" where
  "jsonParse s = (case parseValue s of
                    None \<Rightarrow> None
                  | Some (v, r) \<Rightarrow> if skipSpace r = [] then Some v else None)"

text \<open>\<open>safeJsonParse\<close>, for a column that may be \<open>null\<close>.\<close>

definition safeJsonParse :: "string option \<Rightarrow> json \<Rightarrow> json" where
  "safeJsonParse v defaultValue =
     (case v of
        None \<Rightarrow> defaultValue
      | Some s \<Rightarrow> if s = [] then defaultValue
                  else (case jsonParse s of Some j \<Rightarrow> j | None \<Rightarrow> defaultValue))"

section \<open>Reference parser (parse-typedoc.ts)\<close>

record param_info =
  p_name :: string
  p_type :: string
  p_description :: string
  p_optional :: bool

record returns_info =
  r_type :: string
  r_description :: string

record member_info =
  mi_name :: string
  mi_type :: string
  mi_signature :: string
  mi_visibility :: string
  mi_isStatic :: bool
  mi_isAsync :: bool
  mi_description :: string
  mi_params :: "param_info list"
  mi_returns :: "returns_info option"
  mi_decorators :: "string list"
  mi_exampleCode :: "string option"

record class_info =
  ci_name :: string
  ci_package :: string
  ci_type :: string
  ci_description :: string
  ci_extendsClause :: "string option"
  ci_implementsClause :: "string list"
  ci_decorators :: "string list"
  ci_members :: "member_info list"
  ci_filePath :: string
  ci_sourceUrl :: string

text \<open>
  The regular expressions of the parser are written out as scanners. Each scanner says
  which pattern it stands for; where the pattern leaves the engine a choice (a greedy
  repetition followed by something it may have to give back), the scanner takes the choice
  the backtracking engine takes first. The bullet U+2022 and the en dash U+2013 of the
  description and returns patterns lie beyond U+00FF and cannot occur in a string of the
  model.
\<close>

subsection \<open>splitParams\<close>

definition isOpener :: "char \<Rightarrow> bool" where
  "isOpener c = (c = CHR ''<'' \<or> c = CHR ''('' \<or> c = CHR ''{'' \<or> c = CHR ''['')"

definition isCloser :: "char \<Rightarrow> bool" where
  "isCloser c = (c = CHR ''>'' \<or> c = CHR '')'' \<or> c = CHR ''}'' \<or> c = CHR '']'')"

text \<open>The loop state: the parts pushed, the current part, the depth.\<close>

type_synonym split_state = "string list \<times> string \<times> int"

fun splitStep :: "split_state \<Rightarrow> char \<Rightarrow> split_state" where
  "splitStep (parts, current, depth) c =
     (if isOpener c then (parts, current @ [c], depth + 1)
      else if isCloser c then (parts, current @ [c], depth - 1)
      else if c = CHR '','' \<and> depth = 0 then (parts @ [trim current], [], depth)
      else (parts, current @ [c], depth))"

definition splitParams :: "string \<Rightarrow> string list" where
  "splitParams paramStr =
     (case foldl splitStep ([], [], 0) paramStr of
        (parts, current, depth) \<Rightarrow>
          if trim current \<noteq> [] then parts @ [trim current] else parts)"

subsection \<open>parseParams\<close>

text \<open>\<open>/\(([^)]*)\)/\<close>: the text between the first opening parenthesis and the first closing
  parenthesis after it.\<close>

definition sigParamsMatch :: "string \<Rightarrow> string option" where
  "sigParamsMatch signature =
     (case dropWhile (\<lambda>c. c \<noteq> CHR ''('') signature of
        [] \<Rightarrow> None
      | c # rest \<Rightarrow> if CHR '')'' \<in> set rest
                    then Some (takeWhile (\<lambda>c. c \<noteq> CHR '')'') rest) else None)"

text \<open>\<open>\s*(.+)\<close> at the start of a text: the white space is skipped and the capture runs to
  the end of the line; when only white space is left, the engine gives back white space
  until the capture can start, which leaves the last character that is no line terminator.
  The result is the capture and the text after it.\<close>

definition restOfLine :: "string \<Rightarrow> (string \<times> string) option" where
  "restOfLine t =
     (let r = dropWhile isSpaceJS t in
      if r \<noteq> [] then Some (takeWhile (\<lambda>c. \<not> isLineTerminator c) r,
                            dropWhile (\<lambda>c. \<not> isLineTerminator c) r)
      else (case dropWhile isLineTerminator (rev t) of
              [] \<Rightarrow> None
            | c # front \<Rightarrow> Some ([c], drop (Suc (length front)) t)))"

text \<open>\<open>/(\w+)(\?)?:\s*(.+)/\<close> with the match starting at the head of the text: name, optional
  mark, type text.\<close>

definition paramMatchHere :: "string \<Rightarrow> (string \<times> bool \<times> string) option" where
  "paramMatchHere s =
     (let w = takeWhile isWordChar s; r = dropWhile isWordChar s in
      if w = [] then None
      else (case r of
              [] \<Rightarrow> None
            | c # t \<Rightarrow>
                if c = CHR '':'' then
                  (case restOfLine t of None \<Rightarrow> None | Some (ty, rest) \<Rightarrow> Some (w, False, ty))
                else if c = CHR ''?'' then
                  (case t of
                     [] \<Rightarrow> None
                   | d # u \<Rightarrow> if d = CHR '':''
                              then (case restOfLine u of None \<Rightarrow> None
                                    | Some (ty, rest) \<Rightarrow> Some (w, True, ty))
                              else None)
                else None))"

text \<open>The leftmost match in the text.\<close>

fun paramMatch :: "string \<Rightarrow> (string \<times> bool \<times> string) option" where
  "paramMatch [] = paramMatchHere []"
| "paramMatch (c # cs) =
     (case paramMatchHere (c # cs) of Some m \<Rightarrow> Some m | None \<Rightarrow> paramMatch cs)"


text \<open>The first half of parseParams: the parameters read from the signature.\<close>

definition paramOfPart :: "string \<Rightarrow> param_info list" where
  "paramOfPart part =
     (case paramMatch part of
        None \<Rightarrow> []
      | Some (n, opt, ty) \<Rightarrow>
          [\<lparr>p_name = n, p_type = trim ty, p_description = [], p_optional = opt\<rparr>])"

definition signatureParams :: "string \<Rightarrow> param_info list" where
  "signatureParams signature =
     (case sigParamsMatch signature of
        None \<Rightarrow> []
      | Some paramStr \<Rightarrow>
          if trim paramStr \<noteq> [] then concat (map paramOfPart (splitParams paramStr)) else [])"

text \<open>One match of the pattern
  \<open>/[\<bullet>\-\*]\s*[`']?(\w+)[`']?(?:\s*\(([^)]+)\))?(?:\s*[-\<emdash>:]\s*(.+))?/g\<close>: the whole
  matched text and the three captures.\<close>

record desc_match =
  dm_text :: string
  dm_name :: string
  dm_type :: "string option"
  dm_description :: "string option"

definition isQuoteMark :: "char \<Rightarrow> bool" where
  "isQuoteMark c = (c = CHR 0x60 \<or> c = CHR 0x27)"

definition skipQuoteMark :: "string \<Rightarrow> string" where
  "skipQuoteMark s = (case s of [] \<Rightarrow> [] | c # cs \<Rightarrow> if isQuoteMark c then cs else s)"

text \<open>The optional group \<open>(?:\s*\(([^)]+)\))?\<close>: the capture if the group matches, and the
  text after the group.\<close>

definition typeGroup :: "string \<Rightarrow> string option \<times> string" where
  "typeGroup s =
     (case dropWhile isSpaceJS s of
        [] \<Rightarrow> (None, s)
      | c # t \<Rightarrow>
          if c = CHR ''('' \<and> takeWhile (\<lambda>c. c \<noteq> CHR '')'') t \<noteq> []
             \<and> dropWhile (\<lambda>c. c \<noteq> CHR '')'') t \<noteq> []
          then (Some (takeWhile (\<lambda>c. c \<noteq> CHR '')'') t), tl (dropWhile (\<lambda>c. c \<noteq> CHR '')'') t))
          else (None, s))"

text \<open>The optional group \<open>(?:\s*[-\<emdash>:]\s*(.+))?\<close>.\<close>

definition descriptionGroup :: "string \<Rightarrow> string option \<times> string" where
  "descriptionGroup s =
     (case dropWhile isSpaceJS s of
        [] \<Rightarrow> (None, s)
      | c # t \<Rightarrow>
          if c = CHR ''-'' \<or> c = CHR '':''
          then (case restOfLine t of None \<Rightarrow> (None, s) | Some (d, rest) \<Rightarrow> (Some d, rest))
          else (None, s))"

text \<open>A match that starts at the head of the text, and the text after the match.\<close>

definition descMatchHere :: "string \<Rightarrow> (desc_match \<times> string) option" where
  "descMatchHere s =
     (case s of
        [] \<Rightarrow> None
      | b # r0 \<Rightarrow>
          if b = CHR ''-'' \<or> b = CHR ''*'' then
            (let r2 = skipQuoteMark (dropWhile isSpaceJS r0);
                 w = takeWhile isWordChar r2 in
             if w = [] then None
             else (let r4 = skipQuoteMark (dropWhile isWordChar r2);
                       (ty, r5) = typeGroup r4;
                       (de, r6) = descriptionGroup r5
                   in Some (\<lparr>dm_text = take (length s - length r6) s, dm_name = w,
                              dm_type = ty, dm_description = de\<rparr>, r6)))
          else None)"

text \<open>All matches, left to right, each search starting where the previous match ended;
  \<open>skip\<close> counts the characters of the previous match still to pass.\<close>

fun descMatchesFrom :: "nat \<Rightarrow> string \<Rightarrow> desc_match list" where
  "descMatchesFrom skip [] = []"
| "descMatchesFrom (Suc k) (c # cs) = descMatchesFrom k cs"
| "descMatchesFrom 0 (c # cs) =
     (case descMatchHere (c # cs) of
        None \<Rightarrow> descMatchesFrom 0 cs
      | Some (m, rest) \<Rightarrow> m # descMatchesFrom (length (dm_text m) - 1) cs)"

definition descMatches :: "string \<Rightarrow> desc_match list" where
  "descMatches section = descMatchesFrom 0 section"

text \<open>The body of the second loop of parseParams. \<open>params.find\<close> gives the first parameter of
  that name, and the assignments change that parameter in place.\<close>

fun updateFirst :: "string \<Rightarrow> (param_info \<Rightarrow> param_info) \<Rightarrow> param_info list \<Rightarrow> param_info list" where
  "updateFirst n f [] = []"
| "updateFirst n f (p # ps) = (if p_name p = n then f p # ps else p # updateFirst n f ps)"

definition enrichExisting :: "desc_match \<Rightarrow> param_info \<Rightarrow> param_info" where
  "enrichExisting m existing =
     (let e1 = (case dm_type m of None \<Rightarrow> existing | Some t \<Rightarrow> existing\<lparr>p_type := t\<rparr>)
      in (case dm_description m of None \<Rightarrow> e1 | Some d \<Rightarrow> e1\<lparr>p_description := trim d\<rparr>))"

definition enrichStep :: "param_info list \<Rightarrow> desc_match \<Rightarrow> param_info list" where
  "enrichStep params m =
     (if list_ex (\<lambda>p. p_name p = dm_name m) params
      then updateFirst (dm_name m) (enrichExisting m) params
      else if dm_type m \<noteq> None \<or> dm_description m \<noteq> None
      then params @
           [\<lparr>p_name = dm_name m,
             p_type = (case dm_type m of None \<Rightarrow> ''unknown'' | Some t \<Rightarrow> t),
             p_description = (case dm_description m of None \<Rightarrow> [] | Some d \<Rightarrow> trim d),
             p_optional = (includesStr (dm_text m) ''optional'' \<or> includesStr (dm_text m) ''?'')\<rparr>]
      else params)"

definition parseParams :: "string \<Rightarrow> string \<Rightarrow> param_info list" where
  "parseParams section signature =
     foldl enrichStep (signatureParams signature) (descMatches section)"

text \<open>What the second pass may do to a parameter \<open>p\<close> read from the signature, \<open>q\<close> being
  the parameter after the pass and \<open>ms\<close> the matches of the description pattern: the name
  and the optional flag stay; the type stays or becomes the parenthesised text of a match of
  that name; the description stays or becomes the trimmed description of a match of that
  name.\<close>

definition enrichedFrom :: "desc_match list \<Rightarrow> param_info \<Rightarrow> param_info \<Rightarrow> bool" where
  "enrichedFrom ms p q =
     (p_name q = p_name p \<and> p_optional q = p_optional p
      \<and> (p_type q = p_type p
          \<or> list_ex (\<lambda>m. dm_name m = p_name p \<and> dm_type m = Some (p_type q)) ms)
      \<and> (p_description q = p_description p
          \<or> list_ex (\<lambda>m. dm_name m = p_name p
                          \<and> map_option trim (dm_description m) = Some (p_description q)) ms))"

subsection \<open>Members read from a signature\<close>

text \<open>\<open>/@(\w+)/g\<close>: every \<open>@\<close> followed by word characters, left to right.\<close>

function decoratorMatches :: "string \<Rightarrow> string list" where
  "decoratorMatches [] = []"
| "decoratorMatches (c # cs) =
     (if c = CHR ''@'' \<and> takeWhile isWordChar cs \<noteq> []
      then takeWhile isWordChar cs # decoratorMatches (dropWhile isWordChar cs)
      else decoratorMatches cs)"
  by pat_completeness auto
termination
  by (relation "measure length") (auto simp: length_dropWhile_le less_Suc_eq_le)

definition extractDecorators :: "string \<Rightarrow> string list" where
  "extractDecorators section =
     foldl (\<lambda>decorators d. if d \<in> set decorators then decorators else decorators @ [d])
       [] (decoratorMatches section)"

text \<open>\<open>/(\w+)\s*\(/\<close>: the leftmost run of word characters that is followed, after optional
  white space, by an opening parenthesis.\<close>

fun sigNameMatch :: "string \<Rightarrow> string option" where
  "sigNameMatch [] = None"
| "sigNameMatch (c # cs) =
     (if isWordChar c
         \<and> (case dropWhile isSpaceJS (dropWhile isWordChar cs) of
               [] \<Rightarrow> False | d # ds \<Rightarrow> d = CHR ''('')
      then Some (c # takeWhile isWordChar cs)
      else sigNameMatch cs)"

text \<open>The end of the return type in \<open>/\):\s*(.+?)(?:\s*\{|$)/\<close>: the end of the string, or an
  opening brace after optional white space.\<close>

definition returnEnd :: "string \<Rightarrow> bool" where
  "returnEnd s = (s = [] \<or> (case dropWhile isSpaceJS s of [] \<Rightarrow> False | c # cs \<Rightarrow> c = CHR ''{''))"

text \<open>The lazy capture \<open>(.+?)\<close>: \<open>acc\<close> is what is captured so far (at least one character);
  the capture grows by one character at a time until the end test holds, and fails at a
  line terminator.\<close>

fun lazyCapture :: "string \<Rightarrow> string \<Rightarrow> string option" where
  "lazyCapture acc [] = Some acc"
| "lazyCapture acc (c # cs) =
     (if returnEnd (c # cs) then Some acc
      else if isLineTerminator c then None
      else lazyCapture (acc @ [c]) cs)"

definition returnCapture :: "string \<Rightarrow> string option" where
  "returnCapture s =
     (case s of
        [] \<Rightarrow> None
      | c # cs \<Rightarrow> if isLineTerminator c then None else lazyCapture [c] cs)"

text \<open>\<open>\s*\<close> takes all the white space first and gives it back one character at a time.\<close>

fun returnAfterColon :: "nat \<Rightarrow> string \<Rightarrow> string option" where
  "returnAfterColon 0 t = returnCapture t"
| "returnAfterColon (Suc k) t =
     (case returnCapture (drop (Suc k) t) of
        Some r \<Rightarrow> Some r
      | None \<Rightarrow> returnAfterColon k t)"

fun returnMatch :: "string \<Rightarrow> string option" where
  "returnMatch [] = None"
| "returnMatch (c # cs) =
     (if startsWith (c # cs) ''):'' then
        (case returnAfterColon (length (takeWhile isSpaceJS (drop 1 cs))) (drop 1 cs) of
           Some r \<Rightarrow> Some r
         | None \<Rightarrow> returnMatch cs)
      else returnMatch cs)"

definition parseMemberFromSignature :: "string \<Rightarrow> string \<Rightarrow> member_info option" where
  "parseMemberFromSignature signature context' =
     (case sigNameMatch signature of
        None \<Rightarrow> None
      | Some n \<Rightarrow>
          Some \<lparr>mi_name = n,
                mi_type = (if n = ''constructor'' then ''constructor'' else ''method''),
                mi_signature = signature,
                mi_visibility = ''public'',
                mi_isStatic = includesStr signature ''static '',
                mi_isAsync = (includesStr signature ''async '' \<or> includesStr signature ''Promise<''),
                mi_description = [],
                mi_params = parseParams context' signature,
                mi_returns = (case returnMatch signature of
                                None \<Rightarrow> None
                              | Some t \<Rightarrow> Some \<lparr>r_type = trim t, r_description = []\<rparr>),
                mi_decorators = extractDecorators context',
                mi_exampleCode = None\<rparr>)"

subsection \<open>Argument groups, typed names and name marks, as the specification describes them\<close>

text \<open>The nesting depth before position \<open>i\<close> of an argument text: the opening brackets
  \<open><({[\<close> before it minus the closing brackets \<open>>)}]\<close> before it. A comma is top-level
  when the depth before it is zero; the argument groups are the pieces of the text between
  the top-level commas.\<close>

definition depthBefore :: "string \<Rightarrow> nat \<Rightarrow> int" where
  "depthBefore s i = int (length (filter isOpener (take i s))) - int (length (filter isCloser (take i s)))"

definition topLevelCommas :: "string \<Rightarrow> nat list" where
  "topLevelCommas s = filter (\<lambda>i. s ! i = CHR '','' \<and> depthBefore s i = 0) [0..<length s]"

text \<open>The pieces of \<open>s\<close> between the positions \<open>ps\<close> (increasing), \<open>start\<close> being the position
  after the previous cut.\<close>

fun piecesBetween :: "nat \<Rightarrow> nat list \<Rightarrow> string \<Rightarrow> string list" where
  "piecesBetween start [] s = [drop start s]"
| "piecesBetween start (p # ps) s = take (p - start) (drop start s) # piecesBetween (Suc p) ps s"

definition argumentGroups :: "string \<Rightarrow> string list" where
  "argumentGroups s = piecesBetween 0 (topLevelCommas s) s"

text \<open>A group holds a typed name when, in its trimmed text, a colon comes right after a word
  character, or right after a question mark that follows a word character, and some
  character other than a line terminator comes after the colon.\<close>

definition typedNameAt :: "string \<Rightarrow> nat \<Rightarrow> bool" where
  "typedNameAt s j =
     (j < length s \<and> s ! j = CHR '':''
      \<and> ((0 < j \<and> isWordChar (s ! (j - 1)))
          \<or> (1 < j \<and> s ! (j - 1) = CHR ''?'' \<and> isWordChar (s ! (j - 2))))
      \<and> list_ex (\<lambda>c. \<not> isLineTerminator c) (drop (Suc j) s))"

definition hasTypedName :: "string \<Rightarrow> bool" where
  "hasTypedName g = list_ex (typedNameAt (trim g)) [0..<length (trim g)]"

text \<open>A text holds a name mark when a hyphen or an asterisk in it is followed, after optional
  white space and an optional back quote or apostrophe, by a word character.\<close>

definition nameMarkHere :: "string \<Rightarrow> bool" where
  "nameMarkHere s =
     (case s of
        [] \<Rightarrow> False
      | b # r \<Rightarrow>
          (b = CHR ''-'' \<or> b = CHR ''*'')
          \<and> (case skipQuoteMark (dropWhile isSpaceJS r) of [] \<Rightarrow> False | c # cs \<Rightarrow> isWordChar c))"

fun hasNameMark :: "string \<Rightarrow> bool" where
  "hasNameMark [] = False"
| "hasNameMark (c # cs) = (nameMarkHere (c # cs) \<or> hasNameMark cs)"

subsection \<open>Class sections\<close>

text \<open>A global \<open>replace\<close>: \<open>m\<close> recognises a match at the head of a text and gives its
  replacement and the text after the match; the search goes on after each match.\<close>

fun replaceFrom :: "(string \<Rightarrow> (string \<times> string) option) \<Rightarrow> nat \<Rightarrow> string \<Rightarrow> string" where
  "replaceFrom m skip [] = []"
| "replaceFrom m (Suc k) (c # cs) = replaceFrom m k cs"
| "replaceFrom m 0 (c # cs) =
     (case m (c # cs) of
        None \<Rightarrow> c # replaceFrom m 0 cs
      | Some (rep, rest) \<Rightarrow> rep @ replaceFrom m (length cs - length rest) cs)"

text \<open>\<open>/\[([^\]]+)\]\([^)]+\)/\<close> at the head of a text.\<close>

definition linkHere :: "string \<Rightarrow> (string \<times> string) option" where
  "linkHere s =
     (case s of
        [] \<Rightarrow> None
      | c # t \<Rightarrow>
          if c = CHR ''['' \<and> takeWhile (\<lambda>c. c \<noteq> CHR '']'') t \<noteq> []
             \<and> startsWith (dropWhile (\<lambda>c. c \<noteq> CHR '']'') t) ''](''
          then (let u = drop 2 (dropWhile (\<lambda>c. c \<noteq> CHR '']'') t) in
                if takeWhile (\<lambda>c. c \<noteq> CHR '')'') u \<noteq> [] \<and> dropWhile (\<lambda>c. c \<noteq> CHR '')'') u \<noteq> []
                then Some (takeWhile (\<lambda>c. c \<noteq> CHR '']'') t, tl (dropWhile (\<lambda>c. c \<noteq> CHR '')'') u))
                else None)
          else None)"

text \<open>The delimiter \<open>d\<close> (made of the character \<open>c\<close>), a non-empty run without \<open>c\<close>, and the
  delimiter again: the patterns for inline code, bold and italic.\<close>

definition delimitedHere :: "string \<Rightarrow> char \<Rightarrow> string \<Rightarrow> (string \<times> string) option" where
  "delimitedHere d c s =
     (if s \<noteq> [] \<and> startsWith s d
         \<and> takeWhile (\<lambda>x. x \<noteq> c) (drop (length d) s) \<noteq> []
         \<and> startsWith (dropWhile (\<lambda>x. x \<noteq> c) (drop (length d) s)) d
      then Some (takeWhile (\<lambda>x. x \<noteq> c) (drop (length d) s),
                 drop (length d) (dropWhile (\<lambda>x. x \<noteq> c) (drop (length d) s)))
      else None)"

definition cleanDescription :: "string \<Rightarrow> string" where
  "cleanDescription text =
     trim (replaceFrom (delimitedHere ''*'' (CHR ''*'')) 0
            (replaceFrom (delimitedHere ''**'' (CHR ''*'')) 0
              (replaceFrom (delimitedHere [CHR 0x60] (CHR 0x60)) 0
                (replaceFrom linkHere 0 text))))"

definition isColonOrSpace :: "char \<Rightarrow> bool" where
  "isColonOrSpace c = (c = CHR '':'' \<or> isSpaceJS c)"

text \<open>\<open>/(?:Extends|extends)[:\s]+[`\[]?(\w+)[`\]]?/i\<close>.\<close>

definition extendsHere :: "string \<Rightarrow> string option" where
  "extendsHere s =
     (if toLowerCase (take 7 s) = ''extends'' \<and> takeWhile isColonOrSpace (drop 7 s) \<noteq> [] then
        (let r1 = dropWhile isColonOrSpace (drop 7 s);
             r2 = (case r1 of [] \<Rightarrow> [] | c # cs \<Rightarrow> if c = CHR 0x60 \<or> c = CHR ''['' then cs else r1)
         in if takeWhile isWordChar r2 \<noteq> [] then Some (takeWhile isWordChar r2) else None)
      else None)"

fun extendsMatch :: "string \<Rightarrow> string option" where
  "extendsMatch [] = None"
| "extendsMatch (c # cs) =
     (case extendsHere (c # cs) of Some w \<Rightarrow> Some w | None \<Rightarrow> extendsMatch cs)"

text \<open>\<open>/(?:Implements|implements)[:\s]+(.+)/i\<close>: when the colons and white space run to the
  end of the text, the engine gives characters back (keeping at least one) until the
  capture can start.\<close>

definition implementsHere :: "string \<Rightarrow> string option" where
  "implementsHere s =
     (if toLowerCase (take 10 s) = ''implements'' \<and> takeWhile isColonOrSpace (drop 10 s) \<noteq> [] then
        (let r1 = dropWhile isColonOrSpace (drop 10 s) in
         if r1 \<noteq> [] then Some (takeWhile (\<lambda>c. \<not> isLineTerminator c) r1)
         else (case dropWhile isLineTerminator (rev (tl (drop 10 s))) of
                 [] \<Rightarrow> None
               | c # front \<Rightarrow> Some [c]))
      else None)"

fun implementsMatch :: "string \<Rightarrow> string option" where
  "implementsMatch [] = None"
| "implementsMatch (c # cs) =
     (case implementsHere (c # cs) of Some w \<Rightarrow> Some w | None \<Rightarrow> implementsMatch cs)"

definition endsWith :: "string \<Rightarrow> string \<Rightarrow> bool" where
  "endsWith s p = startsWith (rev s) (rev p)"

definition skipNames :: "string list" where
  "skipNames = [''Classes'', ''Interfaces'', ''Type'', ''Enumerations'', ''Functions'',
                ''Variables'', ''References'', ''Exports'']"

text \<open>The lines of the description: after the name line, up to the first heading or code
  fence, without empty lines, table rows and bullet lines.\<close>

definition descLines :: "string \<Rightarrow> string list" where
  "descLines section =
     filter (\<lambda>line. line \<noteq> [] \<and> \<not> startsWith line ''|'' \<and> \<not> startsWith line ''-'')
       (map trim
          (takeWhile (\<lambda>l. \<not> startsWith l ''#'' \<and> \<not> startsWith l ''```'')
             (tl (splitChar (CHR 0x0A) section))))"

definition detectType :: "string \<Rightarrow> string \<Rightarrow> string" where
  "detectType name section =
     (if includesStr (toLowerCase section) ''interface'' \<or> startsWith name ''I'' then ''interface''
      else if includesStr (toLowerCase section) ''type alias'' then ''type''
      else if includesStr (toLowerCase section) ''enumeration'' \<or> endsWith name ''Enum'' then ''enum''
      else if includesStr (toLowerCase section) ''function'' then ''function''
      else ''class'')"

text \<open>The member extraction is the parameter \<open>pm\<close> of the class parser, so that what is
  proved of the class parser holds whatever members are extracted; the parser runs it with
  parseMembers, which is defined below.\<close>

definition parseClassSection ::
  "(string \<Rightarrow> member_info list) \<Rightarrow> string \<Rightarrow> string \<Rightarrow> string \<Rightarrow> string \<Rightarrow> string
     \<Rightarrow> class_info option" where
  "parseClassSection pm name section pkg fp srcUrl =
     (if name \<in> set skipNames then None
      else Some
        \<lparr>ci_name = name,
         ci_package = pkg,
         ci_type = detectType name section,
         ci_description = cleanDescription (join '' '' (descLines section)),
         ci_extendsClause = extendsMatch section,
         ci_implementsClause =
           (case implementsMatch section of
              None \<Rightarrow> []
            | Some t \<Rightarrow>
                filter (\<lambda>s. length s > 0)
                  (map (\<lambda>s. filter (\<lambda>c. c \<noteq> CHR 0x60 \<and> c \<noteq> CHR ''['' \<and> c \<noteq> CHR '']'') (trim s))
                     (splitChar (CHR '','') t))),
         ci_decorators = extractDecorators section,
         ci_members = pm section,
         ci_filePath = fp,
         ci_sourceUrl = srcUrl\<rparr>)"

subsection \<open>parseMembers\<close>

text \<open>The optional language tag after a code fence, as in \<open>(?:typescript|ts)?\<close>: the first tag
  the text starts with is passed over. No tag starts another, so when the rest of a pattern
  fails after a tag it fails for the other alternatives too.\<close>

definition skipLang :: "string list \<Rightarrow> string \<Rightarrow> string" where
  "skipLang langs s = (case find (startsWith s) langs of None \<Rightarrow> s | Some l \<Rightarrow> drop (length l) s)"

text \<open>\<open>\s*\n\<close> before the rest of a pattern: \<open>\s*\<close> takes the whole run of white space (\<open>n\<close>
  characters of \<open>t\<close>) and gives it back one character at a time, until a line feed follows
  and the rest of the pattern, \<open>body\<close>, matches after it.\<close>

definition lineFeedThen :: "(string \<Rightarrow> 'a option) \<Rightarrow> string \<Rightarrow> 'a option" where
  "lineFeedThen body t =
     (case t of [] \<Rightarrow> None | c # u \<Rightarrow> if c = CHR 0x0A then body u else None)"

fun afterLineFeed :: "(string \<Rightarrow> 'a option) \<Rightarrow> nat \<Rightarrow> string \<Rightarrow> 'a option" where
  "afterLineFeed body 0 t = lineFeedThen body t"
| "afterLineFeed body (Suc n) t =
     (case lineFeedThen body (drop (Suc n) t) of
        Some r \<Rightarrow> Some r
      | None \<Rightarrow> afterLineFeed body n t)"

text \<open>\<open>([^`]+)\n```\<close>: the capture runs to the first back quote and gives back the line feed
  before it; the result is the capture.\<close>

definition fencedText :: "string \<Rightarrow> string option" where
  "fencedText t =
     (let body = takeWhile (\<lambda>c. c \<noteq> CHR 0x60) t in
      if startsWith (dropWhile (\<lambda>c. c \<noteq> CHR 0x60) t) ''```''
         \<and> 2 \<le> length body \<and> last body = CHR 0x0A
      then Some (butlast body) else None)"

text \<open>\<open>/```(?:typescript|ts)?\s*\n([^`]+)\n```/\<close> (with the language tags \<open>langs\<close>) at the head
  of a text, and the leftmost match in a text.\<close>

definition fenceHere :: "string list \<Rightarrow> string \<Rightarrow> string option" where
  "fenceHere langs s =
     (if startsWith s ''```''
      then (let t = skipLang langs (drop 3 s)
            in afterLineFeed fencedText (length (takeWhile isSpaceJS t)) t)
      else None)"

fun firstFence :: "string list \<Rightarrow> string \<Rightarrow> string option" where
  "firstFence langs [] = None"
| "firstFence langs (c # cs) =
     (case fenceHere langs (c # cs) of Some x \<Rightarrow> Some x | None \<Rightarrow> firstFence langs cs)"

text \<open>\<open>/#{4,5}\s+\w+\s*\n+([^#`\n][^\n]+)/\<close>. After the heading, \<open>\s*\<close> gives white space back
  until a line feed follows; \<open>\n+\<close> takes the whole run of line feeds, and the capture is a
  character that is no \<open>#\<close>, back quote or line feed, and at least one more character, to the
  end of the line.\<close>

definition descriptionLine :: "string \<Rightarrow> string option" where
  "descriptionLine u =
     (case dropWhile (\<lambda>c. c = CHR 0x0A) u of
        c1 # c2 # v \<Rightarrow>
          if c1 \<noteq> CHR ''#'' \<and> c1 \<noteq> CHR 0x60 \<and> c2 \<noteq> CHR 0x0A
          then Some (c1 # takeWhile (\<lambda>c. c \<noteq> CHR 0x0A) (c2 # v)) else None
      | _ \<Rightarrow> None)"

text \<open>\<open>#{4,5}\s+(\w+)\<close> at the head of a text: four or five \<open>#\<close> (a sixth one leaves no match),
  white space, a word. The result is the word and the text after it.\<close>

definition memberHeadingHere :: "string \<Rightarrow> (string \<times> string) option" where
  "memberHeadingHere s =
     (let h = length (takeWhile (\<lambda>c. c = CHR ''#'') s);
          r = dropWhile isSpaceJS (drop h s)
      in if (h = 4 \<or> h = 5) \<and> takeWhile isSpaceJS (drop h s) \<noteq> [] \<and> takeWhile isWordChar r \<noteq> []
         then Some (takeWhile isWordChar r, dropWhile isWordChar r) else None)"

definition memberDescHere :: "string \<Rightarrow> string option" where
  "memberDescHere s =
     (case memberHeadingHere s of
        None \<Rightarrow> None
      | Some (n, r) \<Rightarrow> afterLineFeed descriptionLine (length (takeWhile isSpaceJS r)) r)"

fun memberDescMatch :: "string \<Rightarrow> string option" where
  "memberDescMatch [] = None"
| "memberDescMatch (c # cs) =
     (case memberDescHere (c # cs) of Some d \<Rightarrow> Some d | None \<Rightarrow> memberDescMatch cs)"

text \<open>\<open>/(?:Returns?|return type)[:\s]+[`\[]?([^`\]\n]+)[`\]]?(?:\s*[-\<emdash>]\s*(.+))?/i\<close>. The
  type capture is a non-empty run without back quote, closing bracket and line feed; the
  optional group after it gives the description.\<close>

definition isTypeChar :: "char \<Rightarrow> bool" where
  "isTypeChar c = (c \<noteq> CHR 0x60 \<and> c \<noteq> CHR '']'' \<and> c \<noteq> CHR 0x0A)"

definition dashGroup :: "string \<Rightarrow> string option" where
  "dashGroup s =
     (case dropWhile isSpaceJS s of
        [] \<Rightarrow> None
      | c # t \<Rightarrow> if c = CHR ''-'' then map_option fst (restOfLine t) else None)"

definition returnsCapture :: "string \<Rightarrow> returns_info option" where
  "returnsCapture v =
     (if takeWhile isTypeChar v = [] then None
      else (let r = dropWhile isTypeChar v;
                r' = (case r of [] \<Rightarrow> [] | c # cs \<Rightarrow> if c = CHR 0x60 \<or> c = CHR '']'' then cs else r)
            in Some \<lparr>r_type = trim (takeWhile isTypeChar v),
                     r_description = (case dashGroup r' of None \<Rightarrow> [] | Some d \<Rightarrow> d)\<rparr>))"

text \<open>\<open>[`\[]?\<close> takes an opening mark when there is one, and gives it back when the capture
  cannot start after it.\<close>

definition returnsType :: "string \<Rightarrow> returns_info option" where
  "returnsType t =
     (case t of
        [] \<Rightarrow> None
      | c # u \<Rightarrow>
          if c = CHR 0x60 \<or> c = CHR ''[''
          then (case returnsCapture u of Some r \<Rightarrow> Some r | None \<Rightarrow> returnsCapture t)
          else returnsCapture t)"

text \<open>\<open>[:\s]+\<close> takes the whole run of colons and white space (\<open>n\<close> characters of \<open>t\<close>) and gives
  it back one character at a time, keeping at least one.\<close>

fun returnsAfterLabel :: "nat \<Rightarrow> string \<Rightarrow> returns_info option" where
  "returnsAfterLabel 0 t = None"
| "returnsAfterLabel (Suc n) t =
     (case returnsType (drop (Suc n) t) of
        Some r \<Rightarrow> Some r
      | None \<Rightarrow> returnsAfterLabel n t)"

definition returnsLabelled :: "string \<Rightarrow> returns_info option" where
  "returnsLabelled t = returnsAfterLabel (length (takeWhile isColonOrSpace t)) t"

definition returnsHere :: "string \<Rightarrow> returns_info option" where
  "returnsHere s =
     (case (if toLowerCase (take 6 s) = ''return''
            then (case (if toLowerCase (take 1 (drop 6 s)) = ''s''
                        then returnsLabelled (drop 7 s) else None) of
                    Some r \<Rightarrow> Some r
                  | None \<Rightarrow> returnsLabelled (drop 6 s))
            else None) of
        Some r \<Rightarrow> Some r
      | None \<Rightarrow> if toLowerCase (take 11 s) = ''return type''
                then returnsLabelled (drop 11 s) else None)"

fun returnsMatch :: "string \<Rightarrow> returns_info option" where
  "returnsMatch [] = None"
| "returnsMatch (c # cs) =
     (case returnsHere (c # cs) of Some r \<Rightarrow> Some r | None \<Rightarrow> returnsMatch cs)"

text \<open>\<open>/[Ee]xample[s]?[:\s]*\n```(?:typescript|ts|javascript|js)?\s*\n([^`]+)\n```/\<close>: the run of
  colons and white space after the label has to end in a line feed, with the fence right
  after it.\<close>

definition exampleHere :: "string \<Rightarrow> string option" where
  "exampleHere s =
     (case s of
        [] \<Rightarrow> None
      | c # r \<Rightarrow>
          if (c = CHR ''E'' \<or> c = CHR ''e'') \<and> startsWith r ''xample''
          then (let r1 = drop 6 r;
                    r2 = (case r1 of [] \<Rightarrow> [] | d # x \<Rightarrow> if d = CHR ''s'' then x else r1);
                    run = takeWhile isColonOrSpace r2
                in if run \<noteq> [] \<and> last run = CHR 0x0A
                   then fenceHere [''typescript'', ''ts'', ''javascript'', ''js'']
                          (dropWhile isColonOrSpace r2)
                   else None)
          else None)"

fun exampleMatch :: "string \<Rightarrow> string option" where
  "exampleMatch [] = None"
| "exampleMatch (c # cs) =
     (case exampleHere (c # cs) of Some x \<Rightarrow> Some x | None \<Rightarrow> exampleMatch cs)"

definition extractCodeExample :: "string \<Rightarrow> string option" where
  "extractCodeExample section = map_option trim (exampleMatch section)"

definition parseMemberSection :: "string \<Rightarrow> string \<Rightarrow> member_info" where
  "parseMemberSection name section =
     (let signature = (case firstFence [''typescript'', ''ts''] section of
                         None \<Rightarrow> []
                       | Some t \<Rightarrow> hd (splitChar (CHR 0x0A) (trim t)))
      in \<lparr>mi_name = name,
          mi_type =
            (if name = ''constructor'' \<or> name = ''new'' then ''constructor''
             else if \<not> includesStr signature ''('' \<and> \<not> includesStr (toLowerCase section) ''method''
             then ''property''
             else if includesStr section ''get '' \<or> includesStr section ''set '' then ''accessor''
             else ''method''),
          mi_signature = signature,
          mi_visibility =
            (if includesStr signature ''protected '' \<or> includesStr section ''protected''
             then ''protected''
             else if includesStr signature ''private '' \<or> includesStr section ''private''
             then ''private''
             else ''public''),
          mi_isStatic = (includesStr signature ''static '' \<or> includesStr section ''static''),
          mi_isAsync = (includesStr signature ''async '' \<or> includesStr signature ''Promise<''),
          mi_description = (case memberDescMatch section of
                              None \<Rightarrow> []
                            | Some d \<Rightarrow> cleanDescription d),
          mi_params = parseParams section signature,
          mi_returns = returnsMatch section,
          mi_decorators = extractDecorators section,
          mi_exampleCode = extractCodeExample section\<rparr>)"

text \<open>\<open>/^#{4,5}\s+(\w+)/gm\<close>: every match, left to right, as the name, the text from the start
  of the match on and the text after the match. \<open>atStart\<close> tells whether the head of the
  text is at the start of a line; \<open>skip\<close> counts the characters of the previous match still
  to pass.\<close>

fun memberMatchesFrom :: "bool \<Rightarrow> nat \<Rightarrow> string \<Rightarrow> (string \<times> string \<times> string) list" where
  "memberMatchesFrom atStart skip [] = []"
| "memberMatchesFrom atStart (Suc k) (c # cs) = memberMatchesFrom (isLineTerminator c) k cs"
| "memberMatchesFrom atStart 0 (c # cs) =
     (case (if atStart then memberHeadingHere (c # cs) else None) of
        None \<Rightarrow> memberMatchesFrom (isLineTerminator c) 0 cs
      | Some (n, rest) \<Rightarrow>
          (n, c # cs, rest) # memberMatchesFrom (isLineTerminator c) (length cs - length rest) cs)"

text \<open>\<open>search(/^#{1,5}\s/m)\<close>: the index of the first line start with one to five \<open>#\<close> and a
  white space after them.\<close>

definition headingHere :: "string \<Rightarrow> bool" where
  "headingHere s =
     (let h = length (takeWhile (\<lambda>c. c = CHR ''#'') s) in
      1 \<le> h \<and> h \<le> 5 \<and> (case drop h s of [] \<Rightarrow> False | c # cs \<Rightarrow> isSpaceJS c))"

fun searchHeading :: "bool \<Rightarrow> nat \<Rightarrow> string \<Rightarrow> nat option" where
  "searchHeading atStart i [] = None"
| "searchHeading atStart i (c # cs) =
     (if atStart \<and> headingHere (c # cs) then Some i
      else searchHeading (isLineTerminator c) (Suc i) cs)"

text \<open>The member section: from the heading to the next heading, or to the end when the
  search gives no index or the index 0.\<close>

definition memberSectionOf :: "string \<Rightarrow> string \<Rightarrow> string" where
  "memberSectionOf afterMatch rest =
     (case searchHeading True 0 rest of
        None \<Rightarrow> afterMatch
      | Some i \<Rightarrow> if 0 < i then take (length afterMatch - length rest + i) afterMatch
                  else afterMatch)"

definition sectionLabels :: "string list" where
  "sectionLabels = [''Constructor'', ''Methods'', ''Properties'', ''Accessors'', ''Parameters'',
                    ''Returns'']"

definition headingStep :: "member_info list \<Rightarrow> string \<times> string \<times> string \<Rightarrow> member_info list" where
  "headingStep members m =
     (case m of (memberName, afterMatch, rest) \<Rightarrow>
        if memberName \<in> set sectionLabels then members
        else members @ [parseMemberSection memberName (memberSectionOf afterMatch rest)])"

text \<open>The signature pattern
  \<open>/```(?:typescript|ts)?\s*\n((?:(?:public|private|protected|static|async)\s+)*\w+\s*\([^)]*\)[^`]*)\n```/g\<close>.
  First the part \<open>\w+\s*\([^)]*\)[^`]*\<close> and the closing \<open>\n```\<close>: a word, white space, the
  text in parentheses up to the first closing one, and the text up to the first back quote,
  which has to be the fence after a line feed. The result is the text from that line feed
  on.\<close>

definition sigCore :: "string \<Rightarrow> string option" where
  "sigCore t =
     (if takeWhile isWordChar t = [] then None
      else (case dropWhile isSpaceJS (dropWhile isWordChar t) of
              [] \<Rightarrow> None
            | c # r2 \<Rightarrow>
                if c = CHR ''('' \<and> CHR '')'' \<in> set r2 then
                  (let r3 = tl (dropWhile (\<lambda>c. c \<noteq> CHR '')'') r2);
                       body = takeWhile (\<lambda>c. c \<noteq> CHR 0x60) r3;
                       r4 = dropWhile (\<lambda>c. c \<noteq> CHR 0x60) r3
                   in if body \<noteq> [] \<and> last body = CHR 0x0A \<and> startsWith r4 ''```''
                      then Some (CHR 0x0A # r4) else None)
                else None))"

text \<open>A modifier keyword and the white space after it.\<close>

definition modifierKeywords :: "string list" where
  "modifierKeywords = [''public'', ''private'', ''protected'', ''static'', ''async'']"

definition skipModifier :: "string \<Rightarrow> string option" where
  "skipModifier t =
     (case find (startsWith t) modifierKeywords of
        None \<Rightarrow> None
      | Some kw \<Rightarrow>
          (case drop (length kw) t of
             [] \<Rightarrow> None
           | c # r \<Rightarrow> if isSpaceJS c then Some (dropWhile isSpaceJS r) else None))"

text \<open>The modifiers are taken as long as there are some, and given back one at a time when
  the rest of the pattern does not match after them.\<close>

function sigCapture :: "string \<Rightarrow> string option" where
  "sigCapture t =
     (case skipModifier t of
        None \<Rightarrow> sigCore t
      | Some t' \<Rightarrow> (case sigCapture t' of Some r \<Rightarrow> Some r | None \<Rightarrow> sigCore t))"
  by pat_completeness auto
termination
proof (relation "measure length")
  show "wf (measure length)" by simp
next
  fix t t' :: string
  assume a: "skipModifier t = Some t'"
  show "(t', t) \<in> measure length"
  proof (cases "find (startsWith t) modifierKeywords")
    case None
    with a show ?thesis by (simp add: skipModifier_def)
  next
    case (Some kw)
    with a obtain c r where d: "drop (length kw) t = c # r" and t': "t' = dropWhile isSpaceJS r"
      by (cases "drop (length kw) t") (auto simp: skipModifier_def split: if_splits)
    from d have "length (drop (length kw) t) = Suc (length r)"
      by simp
    then have "length r < length t"
      by simp
    moreover have "length t' \<le> length r"
      by (simp add: t' length_dropWhile_le)
    ultimately show ?thesis
      by simp
  qed
qed

declare sigCapture.simps [simp del]

text \<open>A match at the head of a text: the capture and the text after the match.\<close>

definition sigBlock :: "string \<Rightarrow> (string \<times> string) option" where
  "sigBlock u =
     (case sigCapture u of
        None \<Rightarrow> None
      | Some rest \<Rightarrow> Some (take (length u - length rest) u, drop 4 rest))"

definition sigPatternHere :: "string \<Rightarrow> (string \<times> string) option" where
  "sigPatternHere s =
     (if startsWith s ''```''
      then (let t = skipLang [''typescript'', ''ts''] (drop 3 s)
            in afterLineFeed sigBlock (length (takeWhile isSpaceJS t)) t)
      else None)"

text \<open>Every match, left to right: the capture and the text from the start of the match
  on.\<close>

fun sigMatchesFrom :: "nat \<Rightarrow> string \<Rightarrow> (string \<times> string) list" where
  "sigMatchesFrom skip [] = []"
| "sigMatchesFrom (Suc k) (c # cs) = sigMatchesFrom k cs"
| "sigMatchesFrom 0 (c # cs) =
     (case sigPatternHere (c # cs) of
        None \<Rightarrow> sigMatchesFrom 0 cs
      | Some (capture, rest) \<Rightarrow>
          (capture, c # cs) # sigMatchesFrom (length cs - length rest) cs)"

definition signatureStep :: "member_info list \<Rightarrow> string \<times> string \<Rightarrow> member_info list" where
  "signatureStep members m =
     (case m of (capture, fromMatch) \<Rightarrow>
        (case sigNameMatch (trim capture) of
           None \<Rightarrow> members
         | Some n \<Rightarrow>
             if list_ex (\<lambda>m. mi_name m = n) members then members
             else (case parseMemberFromSignature (trim capture) fromMatch of
                     None \<Rightarrow> members
                   | Some member \<Rightarrow> members @ [member])))"

definition parseMembers :: "string \<Rightarrow> member_info list" where
  "parseMembers section =
     foldl signatureStep
       (foldl headingStep [] (memberMatchesFrom True 0 section))
       (sigMatchesFrom 0 section)"

subsection \<open>Fenced signatures, as the specification describes them\<close>





subsection \<open>parseTypedocMarkdown\<close>

definition detectPackageFromPath :: "string \<Rightarrow> string" where
  "detectPackageFromPath fp =
     (if includesStr fp ''chain-api-docs'' then ''chain-api''
      else if includesStr fp ''chain-client-docs'' then ''chain-client''
      else if includesStr fp ''chain-test-docs'' then ''chain-test''
      else if includesStr fp ''chaincode-docs'' then ''chaincode''
      else ''unknown'')"

definition getSourceUrl :: "string \<Rightarrow> string \<Rightarrow> string" where
  "getSourceUrl fp pkg =
     (case sdkRelative fp of
        Some r \<Rightarrow> ''https://github.com/GalaChain/sdk/blob/main/''
                  @ map (\<lambda>c. if c = CHR 0x5C then CHR ''/'' else c) r
      | None \<Rightarrow> ''https://docs.galachain.com/latest/'' @ pkg @ ''-docs/'')"

text \<open>\<open>content.split(sep)\<close> for a pattern that starts with \<open>^\<close> under the \<open>m\<close> flag: \<open>sepLen at s\<close>
  is the length of the separator when it matches at the head of \<open>s\<close>; \<open>atStart\<close> says that
  the head of the text is the start of a line.\<close>

fun splitAtLines :: "(string \<Rightarrow> nat option) \<Rightarrow> bool \<Rightarrow> nat \<Rightarrow> string \<Rightarrow> string list" where
  "splitAtLines sepLen atStart skip [] = [[]]"
| "splitAtLines sepLen atStart (Suc k) (c # cs) = splitAtLines sepLen False k cs"
| "splitAtLines sepLen atStart 0 (c # cs) =
     (case (if atStart then sepLen (c # cs) else None) of
        Some n \<Rightarrow> [] # splitAtLines sepLen False (n - 1) cs
      | None \<Rightarrow> (case splitAtLines sepLen (isLineTerminator c) 0 cs of
                   [] \<Rightarrow> [[c]]
                 | p # ps \<Rightarrow> (c # p) # ps))"

text \<open>\<open>/^## (?!Classes|Interfaces|Type Aliases|Enumerations|Functions)/m\<close>.\<close>

definition classSeparator :: "string \<Rightarrow> nat option" where
  "classSeparator s =
     (if startsWith s ''## ''
         \<and> \<not> (startsWith (drop 3 s) ''Classes'' \<or> startsWith (drop 3 s) ''Interfaces''
               \<or> startsWith (drop 3 s) ''Type Aliases'' \<or> startsWith (drop 3 s) ''Enumerations''
               \<or> startsWith (drop 3 s) ''Functions'')
      then Some 3 else None)"

text \<open>\<open>/^### (?!\s)/m\<close>.\<close>

definition nestedSeparator :: "string \<Rightarrow> nat option" where
  "nestedSeparator s =
     (if startsWith s ''### ''
         \<and> (case drop 4 s of [] \<Rightarrow> True | c # cs \<Rightarrow> \<not> isSpaceJS c)
      then Some 4 else None)"

text \<open>\<open>/^\[?(\w+)\]?/\<close> on the first line.\<close>

definition nameMatch :: "string \<Rightarrow> string option" where
  "nameMatch firstLine =
     (let r = (case firstLine of [] \<Rightarrow> [] | c # cs \<Rightarrow> if c = CHR ''['' then cs else firstLine)
      in if takeWhile isWordChar r \<noteq> [] then Some (takeWhile isWordChar r) else None)"

definition firstLineOf :: "string \<Rightarrow> string" where
  "firstLineOf section = trim (hd (splitChar (CHR 0x0A) section))"

text \<open>The body of the first loop: one section of the top-level pass.\<close>

definition topLevelStep ::
  "(string \<Rightarrow> member_info list) \<Rightarrow> string \<Rightarrow> class_info list \<Rightarrow> string \<Rightarrow> class_info list" where
  "topLevelStep pm fp classes section =
     (let firstLine = firstLineOf section in
      if firstLine = [] \<or> startsWith firstLine ''#'' then classes
      else (case nameMatch firstLine of
              None \<Rightarrow> classes
            | Some className \<Rightarrow>
                (case parseClassSection pm className section (detectPackageFromPath fp) fp
                        (getSourceUrl fp (detectPackageFromPath fp)) of
                   None \<Rightarrow> classes
                 | Some classInfo \<Rightarrow> classes @ [classInfo])))"

text \<open>The body of the second loop: one section of the nested pass.\<close>

definition nestedStep ::
  "(string \<Rightarrow> member_info list) \<Rightarrow> string \<Rightarrow> class_info list \<Rightarrow> string \<Rightarrow> class_info list" where
  "nestedStep pm fp classes section =
     (let firstLine = firstLineOf section in
      if firstLine = [] then classes
      else (case nameMatch firstLine of
              None \<Rightarrow> classes
            | Some className \<Rightarrow>
                if list_ex (\<lambda>c. ci_name c = className) classes then classes
                else (case parseClassSection pm className section (detectPackageFromPath fp) fp
                             (getSourceUrl fp (detectPackageFromPath fp)) of
                        None \<Rightarrow> classes
                      | Some classInfo \<Rightarrow> classes @ [classInfo])))"

definition parseTypedocMarkdown ::
  "(string \<Rightarrow> member_info list) \<Rightarrow> string \<Rightarrow> string \<Rightarrow> class_info list" where
  "parseTypedocMarkdown pm content fp =
     foldl (nestedStep pm fp)
       (foldl (topLevelStep pm fp) [] (tl (splitAtLines classSeparator True 0 content)))
       (tl (splitAtLines nestedSeparator True 0 content))"

section \<open>Index builder (build-index.ts)\<close>

text \<open>The rowid an \<open>INTEGER PRIMARY KEY AUTOINCREMENT\<close> column gives the next row: one more
  than the largest rowid of the table (rows are never deleted), 1 for an empty table.\<close>

definition nextId :: "nat list \<Rightarrow> nat" where
  "nextId ids = Suc (fold max ids 0)"

definition paramJson :: "param_info \<Rightarrow> json" where
  "paramJson p = JObj [(''name'', JStr (p_name p)), (''type'', JStr (p_type p)),
                       (''description'', JStr (p_description p)), (''optional'', JBool (p_optional p))]"

definition returnsJson :: "returns_info \<Rightarrow> json" where
  "returnsJson r = JObj [(''type'', JStr (r_type r)), (''description'', JStr (r_description r))]"

definition stringsJson :: "string list \<Rightarrow> json" where
  "stringsJson xs = JArr (map JStr xs)"

definition insertDoc :: "database \<Rightarrow> doc_chunk \<Rightarrow> database" where
  "insertDoc db chunk =
     db\<lparr>db_docs := db_docs db @
          [\<lparr>dr_id = nextId (map dr_id (db_docs db)),
            dr_package = dc_package chunk,
            dr_category = dc_category chunk,
            dr_title = dc_title chunk,
            dr_content = dc_content chunk,
            dr_heading_level = dc_headingLevel chunk,
            dr_source_url = dc_sourceUrl chunk,
            dr_file_path = dc_filePath chunk,
            dr_search_text = toLowerCase (dc_title chunk @ '' '' @ dc_content chunk)\<rparr>]\<rparr>"

text \<open>The \<open>INSERT INTO members\<close> of one member of the class with rowid \<open>classId\<close>.\<close>

definition insertMember :: "nat \<Rightarrow> database \<Rightarrow> member_info \<Rightarrow> database" where
  "insertMember classId db member =
     db\<lparr>db_members := db_members db @
          [\<lparr>mr_id = nextId (map mr_id (db_members db)),
            mr_class_id = classId,
            mr_name = mi_name member,
            mr_type = mi_type member,
            mr_signature = mi_signature member,
            mr_visibility = mi_visibility member,
            mr_is_static = (if mi_isStatic member then 1 else 0),
            mr_is_async = (if mi_isAsync member then 1 else 0),
            mr_description = mi_description member,
            mr_params = stringify (JArr (map paramJson (mi_params member))),
            mr_returns = (case mi_returns member of
                            None \<Rightarrow> None | Some r \<Rightarrow> Some (stringify (returnsJson r))),
            mr_decorators = stringify (stringsJson (mi_decorators member)),
            mr_example_code = mi_exampleCode member,
            mr_search_text =
              toLowerCase (mi_name member @ '' '' @ mi_signature member @ '' ''
                           @ mi_description member @ '' '' @ join '' '' (mi_decorators member))\<rparr>]\<rparr>"

text \<open>insertClass: the class row, then one member row per member, each with the rowid the
  class row was given (\<open>getLastInsertId\<close> right after the insertion of the class row).\<close>

definition insertClass :: "database \<Rightarrow> class_info \<Rightarrow> database" where
  "insertClass db cls =
     (let classId = nextId (map cr_id (db_classes db));
          db1 = db\<lparr>db_classes := db_classes db @
                  [\<lparr>cr_id = classId,
                    cr_package = ci_package cls,
                    cr_name = ci_name cls,
                    cr_type = ci_type cls,
                    cr_description = ci_description cls,
                    cr_extends_clause = ci_extendsClause cls,
                    cr_implements_clause = stringify (stringsJson (ci_implementsClause cls)),
                    cr_decorators = stringify (stringsJson (ci_decorators cls)),
                    cr_source_url = ci_sourceUrl cls,
                    cr_file_path = ci_filePath cls,
                    cr_search_text =
                      toLowerCase (ci_name cls @ '' '' @ ci_description cls @ '' ''
                                   @ join '' '' (ci_decorators cls))\<rparr>]\<rparr>
      in foldl (insertMember classId) db1 (ci_members cls))"

definition emptyDatabase :: database where
  "emptyDatabase = \<lparr>db_docs = [], db_classes = [], db_members = []\<rparr>"

text \<open>The loop of buildIndex over the files, each given with its content: a file whose path
  contains \<open>-docs/\<close> goes through the reference parser, every file through the guide parser.
  \<open>md\<close> stands for remark-parse.\<close>

definition indexFile ::
  "(string \<Rightarrow> mdnode) \<Rightarrow> (string \<Rightarrow> member_info list) \<Rightarrow> database \<Rightarrow> string \<times> string \<Rightarrow> database" where
  "indexFile md pm db file =
     (case file of (path, content) \<Rightarrow>
        (let db1 = (if includesStr path ''-docs/''
                    then foldl insertClass db (parseTypedocMarkdown pm content path)
                    else db)
         in foldl insertDoc db1 (parseMarkdown (md content) path)))"

definition buildIndex ::
  "(string \<Rightarrow> mdnode) \<Rightarrow> (string \<Rightarrow> member_info list) \<Rightarrow> (string \<times> string) list \<Rightarrow> database" where
  "buildIndex md pm files = foldl (indexFile md pm) emptyDatabase files"

section \<open>Lookups (queries.ts)\<close>

record member_with_details =
  mwd_id :: nat
  mwd_name :: string
  mwd_type :: string
  mwd_signature :: string
  mwd_visibility :: string
  mwd_isStatic :: bool
  mwd_isAsync :: bool
  mwd_description :: string
  mwd_params :: json
  mwd_returns :: json
  mwd_decorators :: json
  mwd_exampleCode :: "string option"
  mwd_className :: "string option"
  mwd_package :: "string option"
  mwd_sourceUrl :: "string option"

record class_with_members =
  cwm_id :: nat
  cwm_name :: string
  cwm_package :: string
  cwm_type :: string
  cwm_description :: string
  cwm_extendsClause :: "string option"
  cwm_implementsClause :: json
  cwm_decorators :: json
  cwm_sourceUrl :: string
  cwm_members :: "member_with_details list"

text \<open>The fields both lookups copy from a member row; the owner's name, package and source
  URL are \<open>undefined\<close> in getClass and come from the joined class row in getMethod.\<close>

definition memberDetails :: "member_row \<Rightarrow> class_row option \<Rightarrow> member_with_details" where
  "memberDetails m owner =
     \<lparr>mwd_id = mr_id m,
      mwd_name = mr_name m,
      mwd_type = mr_type m,
      mwd_signature = mr_signature m,
      mwd_visibility = (if mr_visibility m = [] then ''public'' else mr_visibility m),
      mwd_isStatic = (mr_is_static m \<noteq> 0),
      mwd_isAsync = (mr_is_async m \<noteq> 0),
      mwd_description = mr_description m,
      mwd_params = safeJsonParse (Some (mr_params m)) (JArr []),
      mwd_returns = (case mr_returns m of
                       None \<Rightarrow> JNull
                     | Some r \<Rightarrow> if r = [] then JNull else safeJsonParse (Some r) JNull),
      mwd_decorators = safeJsonParse (Some (mr_decorators m)) (JArr []),
      mwd_exampleCode = mr_example_code m,
      mwd_className = map_option cr_name owner,
      mwd_package = map_option cr_package owner,
      mwd_sourceUrl = map_option cr_source_url owner\<rparr>"

text \<open>\<open>pkg || null\<close>: an absent or empty package is no filter.\<close>

definition packageFilter :: "string option \<Rightarrow> string option" where
  "packageFilter pkg = (case pkg of None \<Rightarrow> None | Some p \<Rightarrow> if p = [] then None else Some p)"

definition packageMatches :: "string option \<Rightarrow> string \<Rightarrow> bool" where
  "packageMatches pkg p = (case packageFilter pkg of None \<Rightarrow> True | Some q \<Rightarrow> p = q)"

definition getClass :: "database \<Rightarrow> string \<Rightarrow> string option \<Rightarrow> class_with_members option" where
  "getClass db name pkg =
     (case filter (\<lambda>c. cr_name c = name \<and> packageMatches pkg (cr_package c)) (db_classes db) of
        [] \<Rightarrow> None
      | cls # others \<Rightarrow>
          Some \<lparr>cwm_id = cr_id cls,
                cwm_name = cr_name cls,
                cwm_package = cr_package cls,
                cwm_type = cr_type cls,
                cwm_description = cr_description cls,
                cwm_extendsClause = cr_extends_clause cls,
                cwm_implementsClause = safeJsonParse (Some (cr_implements_clause cls)) (JArr []),
                cwm_decorators = safeJsonParse (Some (cr_decorators cls)) (JArr []),
                cwm_sourceUrl = cr_source_url cls,
                cwm_members =
                  map (\<lambda>m. memberDetails m None)
                    (filter (\<lambda>m. mr_class_id m = cr_id cls) (db_members db))\<rparr>)"

text \<open>The split of \<open>ClassName.methodName\<close>: \<open>methodName.split('.', 2)\<close> keeps the first two
  pieces.\<close>

definition splitMethodName :: "string \<Rightarrow> string option \<times> string" where
  "splitMethodName methodName =
     (if includesStr methodName ''.''
      then (case take 2 (splitChar (CHR ''.'') methodName) of
              [a, b] \<Rightarrow> (Some a, b)
            | _ \<Rightarrow> (None, methodName))
      else (None, methodName))"

definition getMethod :: "database \<Rightarrow> string \<Rightarrow> string option \<Rightarrow> member_with_details list" where
  "getMethod db methodName pkg =
     (case splitMethodName methodName of
        (className, mName) \<Rightarrow>
          map (\<lambda>(m, c). memberDetails m (Some c))
            (filter (\<lambda>(m, c). mr_name m = mName
                               \<and> (case className of None \<Rightarrow> True | Some cn \<Rightarrow> cr_name c = cn)
                               \<and> packageMatches pkg (cr_package c))
               (memberJoin db)))"

record module_row =
  mo_name :: string
  mo_package :: string
  mo_type :: string
  mo_description :: string

definition listModules :: "database \<Rightarrow> string \<Rightarrow> string \<Rightarrow> module_row list" where
  "listModules db pkg type =
     map (\<lambda>c. \<lparr>mo_name = cr_name c, mo_package = cr_package c, mo_type = cr_type c,
                mo_description = cr_description c\<rparr>)
       (sort_key (\<lambda>c. (cr_package c, cr_type c, cr_name c))
          (filter (\<lambda>c. (pkg = ''all'' \<or> cr_package c = pkg) \<and> (type = ''all'' \<or> cr_type c = type))
             (db_classes db)))"

section \<open>Tools (tools/*.ts)\<close>

datatype index_state = Ready | Building | Failed

record index_status =
  is_status :: index_state
  is_error :: "string option"

text \<open>What a tool returns. \<open>Message\<close> is a response whose text is given in full; the other
  constructors are the responses that render the data they carry as markdown (the rendering
  itself is not part of the model).\<close>

datatype response =
  Message string
| SearchFound string "search_result list"
| ClassFound class_with_members
| MethodsFound string "member_with_details list"
| ModulesFound string string "module_row list"

definition buildingMessage :: string where
  "buildingMessage = ''Index is building (~60s on first run). Please wait and try again.''"

definition failedMessage :: "string option \<Rightarrow> string" where
  "failedMessage err =
     ''Index build failed: '' @ (case err of None \<Rightarrow> ''null'' | Some e \<Rightarrow> e)
     @ ''. Try running with --rebuild flag.''"

record search_args =
  sa_query :: string
  sa_package :: "string option"
  sa_type :: "string option"
  sa_limit :: "int option"

definition orDefault :: "'a option \<Rightarrow> 'a \<Rightarrow> 'a" where
  "orDefault v d = (case v of None \<Rightarrow> d | Some x \<Rightarrow> x)"

definition clampLimit :: "int \<Rightarrow> int" where
  "clampLimit limit = min (max limit 1) 20"

definition searchGalachainDocs :: "index_status \<Rightarrow> database \<Rightarrow> search_args \<Rightarrow> response" where
  "searchGalachainDocs status db args =
     (if is_status status = Building then Message buildingMessage
      else if is_status status = Failed then Message (failedMessage (is_error status))
      else
        (let query = sa_query args;
             pkg = orDefault (sa_package args) ''all'';
             type = orDefault (sa_type args) ''all'';
             limit = orDefault (sa_limit args) 5
         in if query = [] \<or> length (trim query) = 0
            then Message ''Please provide a search query.''
            else
              (let results = searchDocs db query pkg type (clampLimit limit) in
               if length results = 0
               then Message (''No results found for '' @ [CHR 0x22] @ query @ [CHR 0x22]
                             @ (if pkg \<noteq> ''all'' then '' in package '' @ pkg else [])
                             @ (if type \<noteq> ''all'' then '' of type '' @ type else [])
                             @ ''.'')
               else SearchFound query results)))"

record lookup_args =
  la_name :: string
  la_package :: "string option"

definition inPackageText :: "string option \<Rightarrow> string" where
  "inPackageText pkg = (case packageFilter pkg of None \<Rightarrow> [] | Some p \<Rightarrow> '' in package '' @ p)"

definition getGalachainClass :: "index_status \<Rightarrow> database \<Rightarrow> lookup_args \<Rightarrow> response" where
  "getGalachainClass status db args =
     (if is_status status = Building then Message buildingMessage
      else if is_status status = Failed then Message (failedMessage (is_error status))
      else
        (let name = la_name args; pkg = la_package args in
         if name = [] \<or> length (trim name) = 0
         then Message ''Please provide a class/interface name.''
         else (case getClass db name pkg of
                 None \<Rightarrow> Message (''Class/interface '' @ [CHR 0x22] @ name @ [CHR 0x22]
                                  @ '' not found'' @ inPackageText pkg @ ''.'')
               | Some cls \<Rightarrow> ClassFound cls)))"

definition getGalachainMethod :: "index_status \<Rightarrow> database \<Rightarrow> lookup_args \<Rightarrow> response" where
  "getGalachainMethod status db args =
     (if is_status status = Building then Message buildingMessage
      else if is_status status = Failed then Message (failedMessage (is_error status))
      else
        (let methodName = la_name args; pkg = la_package args in
         if methodName = [] \<or> length (trim methodName) = 0
         then Message (''Please provide a method name (e.g., '' @ [CHR 0x22] @ ''submit''
                       @ [CHR 0x22] @ '' or '' @ [CHR 0x22] @ ''GalaContract.submit''
                       @ [CHR 0x22] @ '').'')
         else (let results = getMethod db methodName pkg in
               if length results = 0
               then Message (''Method '' @ [CHR 0x22] @ methodName @ [CHR 0x22]
                             @ '' not found'' @ inPackageText pkg @ ''.'')
               else MethodsFound methodName results)))"

record list_args =
  ls_package :: "string option"
  ls_type :: "string option"

definition listGalachainModules :: "index_status \<Rightarrow> database \<Rightarrow> list_args \<Rightarrow> response" where
  "listGalachainModules status db args =
     (if is_status status = Building then Message buildingMessage
      else if is_status status = Failed then Message (failedMessage (is_error status))
      else
        (let pkg = orDefault (ls_package args) ''all'';
             type = orDefault (ls_type args) ''all'';
             results = listModules db pkg type
         in if length results = 0
            then Message (''No modules found''
                          @ (if pkg \<noteq> ''all'' then '' in package '' @ pkg else [])
                          @ (if type \<noteq> ''all'' then '' of type '' @ type else [])
                          @ ''.'')
            else ModulesFound pkg type results))"

section \<open>Store invariant and example data\<close>

text \<open>What holds of every store the index builder produces: the rowids of the class rows
  increase in the order of insertion, and every member row points to a class row.\<close>

definition storeInvariant :: "database \<Rightarrow> bool" where
  "storeInvariant db =
     (sorted_wrt (<) (map cr_id (db_classes db))
      \<and> list_all (\<lambda>m. list_ex (\<lambda>c. cr_id c = mr_class_id m) (db_classes db)) (db_members db))"

definition exampleMember :: "string \<Rightarrow> member_info" where
  "exampleMember n =
     \<lparr>mi_name = n, mi_type = ''method'', mi_signature = n @ ''(name: string)'',
      mi_visibility = ''public'', mi_isStatic = False, mi_isAsync = False,
      mi_description = [], mi_params = parseParams [] (n @ ''(name: string)''),
      mi_returns = None, mi_decorators = [], mi_exampleCode = None\<rparr>"

definition exampleClass :: "string \<Rightarrow> string \<Rightarrow> string list \<Rightarrow> class_info" where
  "exampleClass n pkg memberNames =
     \<lparr>ci_name = n, ci_package = pkg, ci_type = ''class'', ci_description = ''A '' @ n,
      ci_extendsClause = None, ci_implementsClause = [''A'', ''B''], ci_decorators = [],
      ci_members = map exampleMember memberNames,
      ci_filePath = ''docs/'' @ pkg @ ''-docs/exports.md'',
      ci_sourceUrl = ''https://docs.galachain.com/latest/'' @ pkg @ ''-docs/''\<rparr>"

text \<open>A store with three declarations, two of them named Foo: Foo (chain-api, rowid 1,
  members bar and qux), Baz (chaincode, rowid 2, member bar), Foo (chaincode, rowid 3,
  member bar).\<close>

definition exampleStore :: database where
  "exampleStore =
     foldl insertClass emptyDatabase
       [exampleClass ''Foo'' ''chain-api'' [''bar'', ''qux''],
        exampleClass ''Baz'' ''chaincode'' [''bar''],
        exampleClass ''Foo'' ''chaincode'' [''bar'']]"

text \<open>The class table after insertClass: the old rows and the new one, which has the next
  rowid and the declaration's fields.\<close>

definition classRowOf :: "nat \<Rightarrow> class_info \<Rightarrow> class_row" where
  "classRowOf classId cls =
     \<lparr>cr_id = classId,
      cr_package = ci_package cls,
      cr_name = ci_name cls,
      cr_type = ci_type cls,
      cr_description = ci_description cls,
      cr_extends_clause = ci_extendsClause cls,
      cr_implements_clause = stringify (stringsJson (ci_implementsClause cls)),
      cr_decorators = stringify (stringsJson (ci_decorators cls)),
      cr_source_url = ci_sourceUrl cls,
      cr_file_path = ci_filePath cls,
      cr_search_text =
        toLowerCase (ci_name cls @ '' '' @ ci_description cls @ '' ''
                     @ join '' '' (ci_decorators cls))\<rparr>"

section \<open>Properties of the guide parser\<close>

lemma visitor_not_heading:
  "\<not> isHeading n \<Longrightarrow>
   visitor fp st n = (if isContentBlock n then pushContent (blockText n) st else st)"
  by (cases n) simp_all

lemma sectionsOf_not_heading: "\<not> isHeading n \<Longrightarrow> sectionsOf (n # ns) = sectionsOf ns"
  by (cases n) simp_all

lemma saveChunk_chunks: "chunks (saveChunk fp st) = chunks st @ pendingChunk fp st []"
  by (simp add: saveChunk_def pendingChunk_def)

lemma pendingChunk_push:
  "pendingChunk fp (pushContent s st) extra = pendingChunk fp st (s # extra)"
  by (simp add: pendingChunk_def pushContent_def saveChunk_def)

lemma chunks_push: "chunks (pushContent s st) = chunks st"
  by (simp add: pushContent_def)

lemma pendingChunk_heading:
  assumes "extra = map blockText bs"
  shows "pendingChunk fp
           ((saveChunk fp st)\<lparr>currentHeading := h, currentLevel := d, currentContent := []\<rparr>) extra
         = map (chunkOfSection fp)
             (filter emitsChunk [\<lparr>sectionHeading = h, sectionLevel = d, sectionBlocks = bs\<rparr>])"
  using assms by (simp add: pendingChunk_def saveChunk_def chunkOfSection_def emitsChunk_def)

lemma chunks_heading:
  "chunks ((saveChunk fp st)\<lparr>currentHeading := h, currentLevel := d, currentContent := []\<rparr>)
   = chunks st @ pendingChunk fp st []"
  by (simp add: saveChunk_chunks)

text \<open>The loop invariant: running the visitor from any state and flushing gives the chunks
  already pushed, then the chunk of the open section with the blocks up to the next heading,
  then the chunks of the sections that start later.\<close>

lemma run_visitor:
  "chunks (saveChunk fp (foldl (visitor fp) st ns)) =
     chunks st
     @ pendingChunk fp st
         (map blockText (filter isContentBlock (takeWhile (\<lambda>n. \<not> isHeading n) ns)))
     @ map (chunkOfSection fp) (filter emitsChunk (sectionsOf ns))"
proof (induction ns arbitrary: st)
  case Nil
  show ?case by (simp add: saveChunk_chunks)
next
  case (Cons n ns)
  show ?case
  proof (cases "isHeading n")
    case True
    then obtain d cs where n: "n = Heading d cs" by (cases n) simp_all
    show ?thesis
      unfolding n
      by (simp add: Cons.IH chunks_heading pendingChunk_heading [OF refl])
  next
    case False
    then show ?thesis
      by (simp add: Cons.IH visitor_not_heading sectionsOf_not_heading chunks_push
          pendingChunk_push)
  qed
qed

lemma pendingChunk_initial: "pendingChunk fp initialState extra = []"
  by (simp add: pendingChunk_def initialState_def saveChunk_def)

lemma sectionsOf_no_heading: "filter isHeading ns = [] \<Longrightarrow> sectionsOf ns = []"
proof (induction ns)
  case Nil
  show ?case by simp
next
  case (Cons n ns)
  then show ?case by (cases "isHeading n") (simp_all add: sectionsOf_not_heading)
qed

text \<open>
  C1. For every markdown tree and file path, parseMarkdown returns, in document order, the
  chunk of each heading section that has a non-empty heading text and at least one content
  block (paragraph, code block, list or blockquote); a section without content blocks or
  with an empty heading gives no chunk, and a document in which no heading occurs gives no
  chunk at all, whatever content it has.
\<close>

theorem parseMarkdown_heading_sections:
  "parseMarkdown tree fp
     = map (chunkOfSection fp) (filter emitsChunk (sectionsOf (visit_order tree)))
   \<and> (filter isHeading (visit_order tree) = [] \<longrightarrow> parseMarkdown tree fp = [])"
proof -
  have "chunks initialState = []"
    by (simp add: initialState_def)
  then have eq: "parseMarkdown tree fp
      = map (chunkOfSection fp) (filter emitsChunk (sectionsOf (visit_order tree)))"
    by (simp add: parseMarkdown_def run_visitor pendingChunk_initial)
  show ?thesis
    using eq by (simp add: sectionsOf_no_heading)
qed

theorem parseMarkdown_heading_sections_witness:
  "filter isHeading (visit_order (Root [Paragraph [Literal ''Hello world.''], Code None ''x'']))
     = []
   \<and> parseMarkdown (Root [Paragraph [Literal ''Hello world.''], Code None ''x''])
        ''docs/intro.md'' = []"
  using parseMarkdown_heading_sections
    [of "Root [Paragraph [Literal ''Hello world.''], Code None ''x'']" "''docs/intro.md''"]
  by simp

section \<open>Properties of the relevance score\<close>

lemma relevanceStep_eq:
  "relevanceStep text s t =
     s - (if wordRegexTest text t then 20 else 0)
       - (if \<not> wordRegexTest text t \<and> occursAsSubstring text t then 10 else 0)
       - (if firstWordHas text t then 30 else 0)"
  by (simp add: relevanceStep_def occursAsSubstring_def firstWordHas_def Let_def)

lemma relevance_loop:
  "foldl (relevanceStep text) s terms =
     s - 20 * int (length (filter (wordRegexTest text) terms))
       - 10 * int (length (filter (\<lambda>t. \<not> wordRegexTest text t \<and> occursAsSubstring text t) terms))
       - 30 * int (length (filter (firstWordHas text) terms))"
proof (induction terms arbitrary: s)
  case Nil
  show ?case by simp
next
  case (Cons t ts)
  have "foldl (relevanceStep text) s (t # ts)
          = foldl (relevanceStep text) (relevanceStep text s t) ts"
    by simp
  also have "\<dots> = relevanceStep text s t
       - 20 * int (length (filter (wordRegexTest text) ts))
       - 10 * int (length (filter (\<lambda>t. \<not> wordRegexTest text t \<and> occursAsSubstring text t) ts))
       - 30 * int (length (filter (firstWordHas text) ts))"
    by (rule Cons.IH)
  also have "\<dots> = s
       - 20 * int (length (filter (wordRegexTest text) (t # ts)))
       - 10 * int (length (filter (\<lambda>t. \<not> wordRegexTest text t \<and> occursAsSubstring text t) (t # ts)))
       - 30 * int (length (filter (firstWordHas text) (t # ts)))"
    by (simp add: relevanceStep_eq)
  finally show ?case .
qed

lemma sliceTo_sorted: "sorted (map f xs) \<Longrightarrow> sorted (map f (sliceTo n xs))"
  by (simp add: sliceTo_def take_map [symmetric] sorted_wrt_take del: take_map)

lemma searchDocs_sorted: "sorted (map sr_rank (searchDocs db query pkg type limit))"
  by (simp add: searchDocs_def Let_def sliceTo_sorted)

text \<open>
  C3, as the code has it. For every text and every list of terms, the relevance score is
  the stated score (100, minus 20 per term that occurs as a whole word, else minus 10 per
  term that occurs as a substring of the lower-cased text, minus 30 per term the first
  word equals or contains, minus 5 under 100 characters and 5 more under 50) raised to 0
  when it is negative; and the results of a search are in ascending order of that score.
\<close>

theorem calculateRelevance_clamped:
  "calculateRelevance text terms = max 0 (statedScore text terms)
   \<and> sorted (map sr_rank (searchDocs db query pkg type limit))"
  by (simp add: calculateRelevance_def statedScore_def relevance_loop Let_def searchDocs_sorted)

text \<open>C3 as stated fails: three terms that are each a whole word of a short text and part
  of its first word take the stated score to -60, and the code returns 0.\<close>

theorem calculateRelevance_unclamped_counterexample:
  "calculateRelevance ''a-b-c'' [''a'', ''b'', ''c'']
     \<noteq> statedScore ''a-b-c'' [''a'', ''b'', ''c'']"
proof -
  have "calculateRelevance ''a-b-c'' [''a'', ''b'', ''c''] = 0
      \<and> statedScore ''a-b-c'' [''a'', ''b'', ''c''] = - 60"
    by (simp add: calculateRelevance_def statedScore_def relevanceStep_def wordRegexTest_def
        wordMatchAt_def wordBoundary_def wordCharAt_def isWordChar_def toLowerCase_def
        toLowerChar_def isUpperChar_def firstWordOf_def firstWordHas_def occursAsSubstring_def
        startsWith_def isSpaceJS_def Let_def)
  then show ?thesis by simp
qed

theorem calculateRelevance_clamped_witness:
  "calculateRelevance ''GalaContract is the base class'' [''gala''] = 50
   \<and> max 0 (statedScore ''GalaContract is the base class'' [''gala'']) = 50
   \<and> sorted (map sr_rank (searchDocs emptyDatabase ''gala'' ''all'' ''all'' 5))"
  using calculateRelevance_clamped
    [of "''GalaContract is the base class''" "[''gala'']" emptyDatabase "''gala''" "''all''"
        "''all''" 5]
  by (simp add: calculateRelevance_def relevanceStep_def wordRegexTest_def
      wordMatchAt_def wordBoundary_def wordCharAt_def isWordChar_def toLowerCase_def
      toLowerChar_def isUpperChar_def firstWordOf_def
      startsWith_def isSpaceJS_def Let_def)

section \<open>Properties of the search\<close>

lemma sqlLimit_subset: "set (sqlLimit n rows) \<subseteq> set rows"
  by (auto simp: sqlLimit_def dest: in_set_takeD)

lemma sliceTo_subset: "set (sliceTo n xs) \<subseteq> set xs"
  by (auto simp: sliceTo_def dest: in_set_takeD)

lemma sliceTo_length: "0 \<le> n \<Longrightarrow> length (sliceTo n xs) \<le> nat n"
  by (simp add: sliceTo_def)

lemma docResults_package:
  assumes "r \<in> set (docResults db terms pkg limit)" and "pkg \<noteq> ''all''"
  shows "sr_package r = pkg"
proof -
  from assms(1) obtain row where
    row: "row \<in> set (sqlLimit limit
             (filter (\<lambda>row. likeAll terms (dr_search_text row)
                             \<and> (pkg = ''all'' \<or> dr_package row = pkg)) (db_docs db)))"
    and r: "sr_package r = dr_package row"
    unfolding docResults_def by auto
  from row sqlLimit_subset have "dr_package row = pkg \<or> pkg = ''all''"
    by fastforce
  with r assms(2) show ?thesis by simp
qed

lemma classResults_package:
  assumes "r \<in> set (classResults db terms pkg type limit)" and "pkg \<noteq> ''all''"
  shows "sr_package r = pkg"
proof -
  from assms(1) obtain row where
    row: "row \<in> set (sqlLimit limit
             (filter (\<lambda>row. likeAll terms (cr_search_text row)
                             \<and> (pkg = ''all'' \<or> cr_package row = pkg)
                             \<and> (type = ''all'' \<or> type = ''class'' \<or> cr_type row = type))
                (db_classes db)))"
    and r: "sr_package r = cr_package row"
    unfolding classResults_def by auto
  from row sqlLimit_subset have "cr_package row = pkg \<or> pkg = ''all''"
    by fastforce
  with r assms(2) show ?thesis by simp
qed

lemma memberResults_package:
  assumes "r \<in> set (memberResults db terms pkg limit)" and "pkg \<noteq> ''all''"
  shows "sr_package r = pkg"
proof -
  from assms(1) obtain m c where
    row: "(m, c) \<in> set (sqlLimit limit
             (filter (\<lambda>(m, c). likeAll terms (mr_search_text m)
                             \<and> (pkg = ''all'' \<or> cr_package c = pkg)) (memberJoin db)))"
    and r: "sr_package r = cr_package c"
    unfolding memberResults_def by auto
  from row sqlLimit_subset have "cr_package c = pkg \<or> pkg = ''all''"
    by fastforce
  with r assms(2) show ?thesis by simp
qed

lemma searchDocs_subset:
  "set (searchDocs db query pkg type limit)
     \<subseteq> set (docResults db (searchTerms query) pkg limit)
       \<union> set (classResults db (searchTerms query) pkg type limit)
       \<union> set (memberResults db (searchTerms query) pkg limit)"
proof (cases "length (searchTerms query) = 0")
  case True
  then show ?thesis by (simp add: searchDocs_def)
next
  case False
  define results where "results =
      (if type = ''all'' \<or> type = ''guide''
       then docResults db (searchTerms query) pkg limit else [])
      @ (if type = ''all'' \<or> type = ''class'' \<or> type = ''interface''
         then classResults db (searchTerms query) pkg type limit else [])
      @ (if type = ''all'' \<or> type = ''method''
         then memberResults db (searchTerms query) pkg limit else [])"
  have "searchDocs db query pkg type limit = sliceTo limit (sort_key sr_rank results)"
    using False by (simp add: searchDocs_def Let_def results_def)
  then have "set (searchDocs db query pkg type limit) \<subseteq> set results"
    using sliceTo_subset [of limit "sort_key sr_rank results"] by simp
  also have "set results \<subseteq> set (docResults db (searchTerms query) pkg limit)
       \<union> set (classResults db (searchTerms query) pkg type limit)
       \<union> set (memberResults db (searchTerms query) pkg limit)"
    unfolding results_def by (simp split: if_splits) blast
  finally show ?thesis .
qed

lemma searchDocs_package:
  assumes "r \<in> set (searchDocs db query pkg type limit)" and "pkg \<noteq> ''all''"
  shows "sr_package r = pkg"
proof -
  from assms(1) searchDocs_subset
  have "r \<in> set (docResults db (searchTerms query) pkg limit)
      \<or> r \<in> set (classResults db (searchTerms query) pkg type limit)
      \<or> r \<in> set (memberResults db (searchTerms query) pkg limit)"
    by blast
  with assms(2) show ?thesis
    using docResults_package classResults_package memberResults_package by blast
qed

lemma clampLimit_range: "1 \<le> clampLimit limit \<and> clampLimit limit \<le> 20"
  by (simp add: clampLimit_def)

lemma searchDocs_length: "0 \<le> limit \<Longrightarrow> length (searchDocs db query pkg type limit) \<le> nat limit"
  by (simp add: searchDocs_def Let_def sliceTo_length)

text \<open>
  C6. For every store, query, package filter, type filter and integer limit, the search
  called with the limit clamped to 1..20 returns at most that many results, and when the
  package filter is not "all" every result has that package; the same holds of the
  results the search tool reports, with the defaults "all" and 5 for an absent filter or
  limit.
\<close>

theorem search_limit_and_package:
  "length (searchDocs db query pkg type (clampLimit limit)) \<le> nat (clampLimit limit)
   \<and> nat (clampLimit limit) \<le> 20
   \<and> (pkg \<noteq> ''all'' \<longrightarrow>
        (\<forall>r \<in> set (searchDocs db query pkg type (clampLimit limit)). sr_package r = pkg))
   \<and> (searchGalachainDocs status db args = SearchFound q results \<longrightarrow>
        length results \<le> nat (clampLimit (orDefault (sa_limit args) 5))
        \<and> (orDefault (sa_package args) ''all'' \<noteq> ''all'' \<longrightarrow>
             (\<forall>r \<in> set results. sr_package r = orDefault (sa_package args) ''all'')))"
proof -
  have range: "\<And>l. 0 \<le> clampLimit l" "\<And>l. nat (clampLimit l) \<le> 20"
    using clampLimit_range by (simp_all add: order_trans [of 0 1] nat_le_iff)
  have a: "length (searchDocs db query pkg type (clampLimit limit)) \<le> nat (clampLimit limit)"
    by (rule searchDocs_length [OF range(1)])
  have b: "pkg \<noteq> ''all'' \<longrightarrow>
        (\<forall>r \<in> set (searchDocs db query pkg type (clampLimit limit)). sr_package r = pkg)"
    using searchDocs_package by blast
  have c: "searchGalachainDocs status db args = SearchFound q results \<longrightarrow>
        length results \<le> nat (clampLimit (orDefault (sa_limit args) 5))
        \<and> (orDefault (sa_package args) ''all'' \<noteq> ''all'' \<longrightarrow>
             (\<forall>r \<in> set results. sr_package r = orDefault (sa_package args) ''all''))"
  proof
    assume "searchGalachainDocs status db args = SearchFound q results"
    then have "results = searchDocs db (sa_query args) (orDefault (sa_package args) ''all'')
                  (orDefault (sa_type args) ''all'') (clampLimit (orDefault (sa_limit args) 5))"
      by (auto simp: searchGalachainDocs_def Let_def split: if_splits)
    then show "length results \<le> nat (clampLimit (orDefault (sa_limit args) 5))
        \<and> (orDefault (sa_package args) ''all'' \<noteq> ''all'' \<longrightarrow>
             (\<forall>r \<in> set results. sr_package r = orDefault (sa_package args) ''all''))"
      using searchDocs_length [OF range(1)] searchDocs_package by blast
  qed
  from a range(2) b c show ?thesis by blast
qed

theorem search_limit_and_package_witness:
  "''chaincode'' \<noteq> ''all''
   \<and> searchGalachainDocs \<lparr>is_status = Ready, is_error = None\<rparr> exampleStore
         \<lparr>sa_query = ''foo'', sa_package = Some ''chaincode'', sa_type = Some ''class'',
          sa_limit = Some 50\<rparr>
       = SearchFound ''foo''
           [\<lparr>sr_id = 3, sr_title = ''Foo'', sr_snippet = ''A Foo'', sr_package = ''chaincode'',
             sr_category = ''class'', sr_type = ''class'',
             sr_sourceUrl = ''https://docs.galachain.com/latest/chaincode-docs/'',
             sr_rank = 40\<rparr>]
   \<and> length (searchDocs exampleStore ''foo'' ''chaincode'' ''class'' (clampLimit 50)) \<le> 20
   \<and> list_all (\<lambda>r. sr_package r = ''chaincode'')
         (searchDocs exampleStore ''foo'' ''chaincode'' ''class'' (clampLimit 50))"
proof -
  have ev: "searchGalachainDocs \<lparr>is_status = Ready, is_error = None\<rparr> exampleStore
         \<lparr>sa_query = ''foo'', sa_package = Some ''chaincode'', sa_type = Some ''class'',
          sa_limit = Some 50\<rparr>
       = SearchFound ''foo''
           [\<lparr>sr_id = 3, sr_title = ''Foo'', sr_snippet = ''A Foo'', sr_package = ''chaincode'',
             sr_category = ''class'', sr_type = ''class'',
             sr_sourceUrl = ''https://docs.galachain.com/latest/chaincode-docs/'',
             sr_rank = 40\<rparr>]"
    by code_simp
  have ne: "''chaincode'' \<noteq> ''all''"
    by simp
  note inst = search_limit_and_package
    [of exampleStore "''foo''" "''chaincode''" "''class''" 50
        "\<lparr>is_status = Ready, is_error = None\<rparr>"
        "\<lparr>sa_query = ''foo'', sa_package = Some ''chaincode'', sa_type = Some ''class'',
          sa_limit = Some 50\<rparr>"
        "''foo''"
        "[\<lparr>sr_id = 3, sr_title = ''Foo'', sr_snippet = ''A Foo'', sr_package = ''chaincode'',
             sr_category = ''class'', sr_type = ''class'',
             sr_sourceUrl = ''https://docs.galachain.com/latest/chaincode-docs/'',
             sr_rank = 40\<rparr>]"]
  from inst have a: "length (searchDocs exampleStore ''foo'' ''chaincode'' ''class''
                       (clampLimit 50)) \<le> nat (clampLimit 50)"
    and b: "nat (clampLimit 50) \<le> 20"
    and c: "''chaincode'' \<noteq> ''all'' \<longrightarrow>
       (\<forall>r \<in> set (searchDocs exampleStore ''foo'' ''chaincode'' ''class'' (clampLimit 50)).
         sr_package r = ''chaincode'')"
    by blast+
  from a b have "length (searchDocs exampleStore ''foo'' ''chaincode'' ''class''
                    (clampLimit 50)) \<le> 20"
    by linarith
  with c ev ne show ?thesis by (simp add: list_all_iff)
qed

section \<open>Properties of the tools\<close>

text \<open>
  C9. Whenever the index status is "building", each of the four tools (search, get class,
  get method, list modules) returns the "index is building" message, whatever the store
  and the arguments are.
\<close>

theorem building_status_reported:
  "is_status status = Building \<Longrightarrow>
     searchGalachainDocs status db sargs = Message buildingMessage
     \<and> getGalachainClass status db cargs = Message buildingMessage
     \<and> getGalachainMethod status db margs = Message buildingMessage
     \<and> listGalachainModules status db largs = Message buildingMessage"
  by (simp add: searchGalachainDocs_def getGalachainClass_def getGalachainMethod_def
      listGalachainModules_def)

theorem building_status_reported_witness:
  "is_status \<lparr>is_status = Building, is_error = None\<rparr> = Building
   \<and> searchGalachainDocs \<lparr>is_status = Building, is_error = None\<rparr> emptyDatabase
         \<lparr>sa_query = ''token'', sa_package = None, sa_type = None, sa_limit = None\<rparr>
       = Message buildingMessage
   \<and> getGalachainClass \<lparr>is_status = Building, is_error = None\<rparr> emptyDatabase
         \<lparr>la_name = ''GalaContract'', la_package = None\<rparr>
       = Message buildingMessage
   \<and> getGalachainMethod \<lparr>is_status = Building, is_error = None\<rparr> emptyDatabase
         \<lparr>la_name = ''GalaContract.submit'', la_package = None\<rparr>
       = Message buildingMessage
   \<and> listGalachainModules \<lparr>is_status = Building, is_error = None\<rparr> emptyDatabase
         \<lparr>ls_package = None, ls_type = None\<rparr>
       = Message buildingMessage"
  using building_status_reported
    [of "\<lparr>is_status = Building, is_error = None\<rparr>" emptyDatabase
        "\<lparr>sa_query = ''token'', sa_package = None, sa_type = None, sa_limit = None\<rparr>"
        "\<lparr>la_name = ''GalaContract'', la_package = None\<rparr>"
        "\<lparr>la_name = ''GalaContract.submit'', la_package = None\<rparr>"
        "\<lparr>ls_package = None, ls_type = None\<rparr>"]
  by simp

section \<open>Properties of the JSON text\<close>

lemma hexVal_hexDigit: "k < 16 \<Longrightarrow> hexVal (hexDigit k) = Some k"
proof -
  assume "k < 16"
  then have "k = 0 \<or> k = 1 \<or> k = 2 \<or> k = 3 \<or> k = 4 \<or> k = 5 \<or> k = 6 \<or> k = 7 \<or> k = 8
      \<or> k = 9 \<or> k = 10 \<or> k = 11 \<or> k = 12 \<or> k = 13 \<or> k = 14 \<or> k = 15"
    by arith
  then show ?thesis
    by (elim disjE) (simp_all add: hexVal_def hexDigit_def)
qed

lemma char_of_hex_parts: "char_of (16 * ((of_char c :: nat) div 16) + (of_char c :: nat) mod 16) = c"
  by simp

lemma parseChars_escapeChar:
  "parseChars (escapeChar c @ rest) = consChar c (parseChars rest)"
proof -
  consider (ctl) "(of_char c :: nat) < 32" | (quote) "c = CHR 0x22" | (bs) "c = CHR 0x5C"
    | (plain) "\<not> (of_char c :: nat) < 32" "c \<noteq> CHR 0x22" "c \<noteq> CHR 0x5C"
    by blast
  then show ?thesis
  proof cases
    case ctl
    then have d: "(of_char c :: nat) div 16 < 16" "(of_char c :: nat) mod 16 < 16"
      by simp_all
    from ctl have ne: "c \<noteq> CHR 0x22" "c \<noteq> CHR 0x5C"
      by auto
    show ?thesis
    proof (cases "c = CHR 0x08 \<or> c = CHR 0x09 \<or> c = CHR 0x0A \<or> c = CHR 0x0C \<or> c = CHR 0x0D")
      case True
      then show ?thesis
        by (auto simp: escapeChar_def unescape_def)
    next
      case False
      with ctl ne have "escapeChar c = [CHR 0x5C, CHR ''u'', CHR ''0'', CHR ''0'',
              hexDigit ((of_char c :: nat) div 16), hexDigit ((of_char c :: nat) mod 16)]"
        by (simp add: escapeChar_def)
      moreover have "hexVal (CHR ''0'') = Some 0"
        by (simp add: hexVal_def)
      ultimately show ?thesis
        using hexVal_hexDigit [OF d(1)] hexVal_hexDigit [OF d(2)] char_of_hex_parts [of c]
        by simp
    qed
  next
    case quote
    then show ?thesis by (simp add: escapeChar_def unescape_def)
  next
    case bs
    then show ?thesis by (simp add: escapeChar_def unescape_def)
  next
    case plain
    from plain(1) have "c \<noteq> CHR 0x08" "c \<noteq> CHR 0x09" "c \<noteq> CHR 0x0A" "c \<noteq> CHR 0x0C"
      "c \<noteq> CHR 0x0D"
      by auto
    with plain show ?thesis by (simp add: escapeChar_def)
  qed
qed

lemma parseChars_escaped:
  "parseChars (concat (map escapeChar s) @ CHR 0x22 # rest) = Some (s, rest)"
proof (induction s)
  case Nil
  show ?case by simp
next
  case (Cons c s)
  have "parseChars (concat (map escapeChar (c # s)) @ CHR 0x22 # rest)
          = parseChars (escapeChar c @ (concat (map escapeChar s) @ CHR 0x22 # rest))"
    by simp
  also have "\<dots> = consChar c (parseChars (concat (map escapeChar s) @ CHR 0x22 # rest))"
    by (rule parseChars_escapeChar)
  also have "\<dots> = Some (c # s, rest)"
    by (simp add: Cons.IH consChar_def)
  finally show ?case .
qed

lemma parseValue_string:
  "parseValue (quoteJSONString s @ rest) = Some (JStr s, rest)"
proof -
  have q: "quoteJSONString s @ rest = CHR 0x22 # (concat (map escapeChar s) @ CHR 0x22 # rest)"
    by (simp add: quoteJSONString_def)
  have "skipSpace (quoteJSONString s @ rest) = quoteJSONString s @ rest"
    unfolding q by (simp add: skipSpace_def isJsonSpace_def)
  then show ?thesis
    unfolding q by (simp add: parseValue.simps [of "CHR 0x22 # _"] parseChars_escaped)
qed

lemma parseElements_strings:
  "xs \<noteq> [] \<Longrightarrow>
   parseElements (join '','' (map quoteJSONString xs) @ CHR '']'' # rest)
     = Some (map JStr xs, rest)"
proof (induction xs rule: induct_list012)
  case 1
  then show ?case by simp
next
  case (2 x)
  show ?case
    by (simp add: parseElements.simps [of "quoteJSONString x @ _"] parseValue_string
        skipSpace_def isJsonSpace_def)
next
  case (3 x y zs)
  let ?tail = "join '','' (map quoteJSONString (y # zs)) @ CHR '']'' # rest"
  have s: "join '','' (map quoteJSONString (x # y # zs)) @ CHR '']'' # rest
            = quoteJSONString x @ CHR '','' # ?tail"
    by simp
  have len: "length ?tail < length (quoteJSONString x @ CHR '','' # ?tail)"
    by simp
  have ih: "parseElements ?tail = Some (map JStr (y # zs), rest)"
    using "3.IH"(2) by simp
  show ?case
    unfolding s
    using len ih
    by (simp add: parseElements.simps [of "quoteJSONString x @ _"] parseValue_string
        skipSpace_def isJsonSpace_def)
qed

lemma jsonParse_strings: "jsonParse (stringify (stringsJson xs)) = Some (stringsJson xs)"
proof (cases xs)
  case Nil
  then show ?thesis
    by (simp add: jsonParse_def stringsJson_def parseValue.simps skipSpace_def isJsonSpace_def)
next
  case (Cons x ys)
  let ?body = "join '','' (map quoteJSONString xs) @ '']''"
  have map_eq: "map stringify (map JStr xs) = map quoteJSONString xs"
    by simp
  have st: "stringify (stringsJson xs) = CHR ''['' # ?body"
    by (simp add: stringsJson_def map_eq comp_def del: map_map)
  have "\<exists>t. ?body = CHR 0x22 # t"
  proof (cases ys)
    case Nil
    with Cons show ?thesis by (simp add: quoteJSONString_def)
  next
    case (Cons y zs)
    with \<open>xs = x # ys\<close> show ?thesis by (simp add: quoteJSONString_def)
  qed
  then obtain t where hd_body: "?body = CHR 0x22 # t" ..
  have el: "parseElements ?body = Some (map JStr xs, [])"
    using parseElements_strings [of xs "[]"] Cons by simp
  have sk: "skipSpace ?body = CHR 0x22 # t"
    by (subst hd_body) (simp add: skipSpace_def isJsonSpace_def)
  have sk0: "skipSpace (CHR ''['' # ?body) = CHR ''['' # ?body"
    by (simp add: skipSpace_def isJsonSpace_def)
  have "parseValue (CHR ''['' # ?body) = Some (JArr (map JStr xs), [])"
    by (subst parseValue.simps) (simp add: sk0 sk el)
  then have "jsonParse (CHR ''['' # ?body) = Some (JArr (map JStr xs))"
    by (simp add: jsonParse_def skipSpace_def)
  then show ?thesis
    unfolding st by (simp add: stringsJson_def)
qed

lemma safeJsonParse_strings:
  "safeJsonParse (Some (stringify (stringsJson xs))) d = stringsJson xs"
proof -
  have "stringify (stringsJson xs) \<noteq> []"
    by (simp add: stringsJson_def)
  then show ?thesis
    by (simp add: safeJsonParse_def jsonParse_strings)
qed

section \<open>Properties of the store\<close>

lemma fold_max_ge: "a \<le> fold max ids a \<and> (\<forall>i \<in> set ids. i \<le> fold max ids (a::nat))"
proof (induction ids arbitrary: a)
  case Nil
  show ?case by simp
next
  case (Cons x xs)
  from Cons.IH [of "max x a"] show ?case
    by (auto simp: max_def split: if_splits)
qed

lemma nextId_greater: "i \<in> set ids \<Longrightarrow> i < nextId ids"
  using fold_max_ge [of 0 ids] by (auto simp: nextId_def less_Suc_eq_le)

lemma insertMember_classes: "db_classes (insertMember cid db m) = db_classes db"
  by (simp add: insertMember_def)

lemma foldl_insertMember_classes: "db_classes (foldl (insertMember cid) db ms) = db_classes db"
  by (induction ms arbitrary: db) (simp_all add: insertMember_classes)

lemma foldl_insertMember_owner:
  "list_all (\<lambda>m. P (mr_class_id m)) (db_members db) \<Longrightarrow> P cid \<Longrightarrow>
   list_all (\<lambda>m. P (mr_class_id m)) (db_members (foldl (insertMember cid) db ms))"
proof (induction ms arbitrary: db)
  case Nil
  then show ?case by simp
next
  case (Cons m ms)
  have "list_all (\<lambda>m. P (mr_class_id m)) (db_members (insertMember cid db m))"
    using Cons.prems by (simp add: insertMember_def)
  from Cons.IH [OF this Cons.prems(2)] show ?case by simp
qed

lemma insertClass_classes:
  "db_classes (insertClass db cls)
     = db_classes db @ [classRowOf (nextId (map cr_id (db_classes db))) cls]"
  by (simp add: insertClass_def Let_def foldl_insertMember_classes classRowOf_def)

lemma insertClass_invariant:
  assumes "storeInvariant db"
  shows "storeInvariant (insertClass db cls)"
proof -
  let ?cid = "nextId (map cr_id (db_classes db))"
  let ?row = "classRowOf ?cid cls"
  let ?P = "\<lambda>i. list_ex (\<lambda>c. cr_id c = i) (db_classes db @ [?row])"
  let ?db1 = "db\<lparr>db_classes := db_classes db @ [?row]\<rparr>"
  have ins: "insertClass db cls = foldl (insertMember ?cid) ?db1 (ci_members cls)"
    by (simp add: insertClass_def Let_def classRowOf_def)
  have sorted: "sorted_wrt (<) (map cr_id (db_classes db @ [?row]))"
    using assms nextId_greater [of _ "map cr_id (db_classes db)"]
    by (auto simp: storeInvariant_def sorted_wrt_append classRowOf_def)
  have old: "list_all (\<lambda>m. ?P (mr_class_id m)) (db_members ?db1)"
    using assms by (auto simp: storeInvariant_def list_all_iff list_ex_iff)
  have new: "?P ?cid"
    by (simp add: classRowOf_def)
  have "list_all (\<lambda>m. ?P (mr_class_id m))
          (db_members (foldl (insertMember ?cid) ?db1 (ci_members cls)))"
    by (rule foldl_insertMember_owner [OF old new])
  then show ?thesis
    using sorted by (simp add: storeInvariant_def ins [symmetric] insertClass_classes)
qed

lemma insertDoc_invariant: "storeInvariant db \<Longrightarrow> storeInvariant (insertDoc db chunk)"
  by (simp add: storeInvariant_def insertDoc_def)

lemma emptyDatabase_invariant: "storeInvariant emptyDatabase"
  by (simp add: storeInvariant_def emptyDatabase_def)

text \<open>Every store the index builder produces satisfies the invariant.\<close>

lemma foldl_insertClass_invariant:
  "storeInvariant db \<Longrightarrow> storeInvariant (foldl insertClass db cs)"
  by (induction cs arbitrary: db) (simp_all add: insertClass_invariant)

lemma foldl_insertDoc_invariant:
  "storeInvariant db \<Longrightarrow> storeInvariant (foldl insertDoc db cs)"
  by (induction cs arbitrary: db) (simp_all add: insertDoc_invariant)

lemma indexFile_invariant:
  "storeInvariant db \<Longrightarrow> storeInvariant (indexFile md pm db entry)"
  by (cases entry)
    (simp add: indexFile_def Let_def foldl_insertClass_invariant foldl_insertDoc_invariant)

lemma buildIndex_invariant: "storeInvariant (buildIndex md pm files)"
proof -
  have "storeInvariant (foldl (indexFile md pm) db files)" if "storeInvariant db" for db
    using that by (induction files arbitrary: db) (simp_all add: indexFile_invariant)
  then show ?thesis
    by (simp add: buildIndex_def emptyDatabase_invariant)
qed

section \<open>Properties of the lookups\<close>

lemma packageMatches_None: "packageMatches None p"
  by (simp add: packageMatches_def packageFilter_def)

lemma getClass_of_matches:
  assumes "filter (\<lambda>c. cr_name c = name \<and> packageMatches pkg (cr_package c)) (db_classes db)
             = first # others"
  shows "\<exists>r. getClass db name pkg = Some r
           \<and> cwm_id r = cr_id first \<and> cwm_name r = cr_name first
           \<and> cwm_package r = cr_package first
           \<and> cwm_implementsClause r = safeJsonParse (Some (cr_implements_clause first)) (JArr [])
           \<and> map mwd_id (cwm_members r)
               = map mr_id (filter (\<lambda>m. mr_class_id m = cr_id first) (db_members db))"
  using assms by (simp add: getClass_def memberDetails_def comp_def)

text \<open>
  C7. A declaration stored by insertClass while no earlier row has its name is what getClass
  returns for that name (with no package filter or with the declaration's own package),
  and the implementsClause it returns is the JSON array of the strings of the declaration's
  implementsClause, in order: for ["A","B"] the array ["A","B"]. The text written by
  JSON.stringify is read back by JSON.parse unchanged, whatever characters (up to U+00FF)
  the names contain.
\<close>

theorem implementsClause_round_trip:
  assumes "list_all (\<lambda>c. cr_name c \<noteq> ci_name cls) (db_classes db)"
    and "packageMatches pkg (ci_package cls)"
  shows "\<exists>r. getClass (insertClass db cls) (ci_name cls) pkg = Some r
           \<and> cwm_name r = ci_name cls
           \<and> cwm_implementsClause r = JArr (map JStr (ci_implementsClause cls))"
proof -
  let ?row = "classRowOf (nextId (map cr_id (db_classes db))) cls"
  have none: "filter (\<lambda>c. cr_name c = ci_name cls \<and> packageMatches pkg (cr_package c))
                (db_classes db) = []"
    using assms(1) by (auto simp: list_all_iff filter_empty_conv)
  have "filter (\<lambda>c. cr_name c = ci_name cls \<and> packageMatches pkg (cr_package c))
          (db_classes (insertClass db cls)) = [?row]"
    using assms(2) by (simp add: insertClass_classes none) (simp add: classRowOf_def)
  from getClass_of_matches [OF this] obtain r where
    r: "getClass (insertClass db cls) (ci_name cls) pkg = Some r"
    and n: "cwm_name r = cr_name ?row"
    and i: "cwm_implementsClause r = safeJsonParse (Some (cr_implements_clause ?row)) (JArr [])"
    by blast
  have "cr_implements_clause ?row = stringify (stringsJson (ci_implementsClause cls))"
    by (simp add: classRowOf_def)
  with i have "cwm_implementsClause r = JArr (map JStr (ci_implementsClause cls))"
    by (simp add: safeJsonParse_strings) (simp add: stringsJson_def)
  moreover have "cwm_name r = ci_name cls"
    using n by (simp add: classRowOf_def)
  ultimately show ?thesis
    using r by blast
qed

theorem implementsClause_round_trip_witness:
  "list_all (\<lambda>c. cr_name c \<noteq> ci_name (exampleClass ''Token'' ''chain-api'' [''mint'']))
     (db_classes exampleStore)
   \<and> packageMatches None (ci_package (exampleClass ''Token'' ''chain-api'' [''mint'']))
   \<and> ci_implementsClause (exampleClass ''Token'' ''chain-api'' [''mint'']) = [''A'', ''B'']
   \<and> (\<exists>r. getClass (insertClass exampleStore (exampleClass ''Token'' ''chain-api'' [''mint'']))
              ''Token'' None = Some r
           \<and> cwm_name r = ''Token''
           \<and> cwm_implementsClause r = JArr [JStr ''A'', JStr ''B''])"
proof -
  have h1: "list_all (\<lambda>c. cr_name c \<noteq> ci_name (exampleClass ''Token'' ''chain-api'' [''mint'']))
     (db_classes exampleStore)"
    by code_simp
  have h2: "packageMatches None (ci_package (exampleClass ''Token'' ''chain-api'' [''mint'']))"
    by (rule packageMatches_None)
  have e: "ci_implementsClause (exampleClass ''Token'' ''chain-api'' [''mint'']) = [''A'', ''B'']"
      "ci_name (exampleClass ''Token'' ''chain-api'' [''mint'']) = ''Token''"
    by (simp_all add: exampleClass_def)
  from implementsClause_round_trip [OF h1 h2] h1 h2 e show ?thesis
    by simp
qed

text \<open>
  C10. In a store whose class rowids increase in insertion order (every store the index
  builder produces), when one or more class rows match the name and the package filter,
  getClass returns the first of them in insertion order: its rowid is smaller than the
  rowid of every other matching row, and the members returned are the member rows whose
  class_id is that rowid, all of them and no others. It returns one declaration, not all
  matches, and no error.
\<close>

theorem getClass_first_match:
  assumes "storeInvariant db"
    and "filter (\<lambda>c. cr_name c = name \<and> packageMatches pkg (cr_package c)) (db_classes db)
           = first # others"
  shows "\<exists>r. getClass db name pkg = Some r
           \<and> cwm_id r = cr_id first
           \<and> list_all (\<lambda>c. cr_id first < cr_id c) others
           \<and> map mwd_id (cwm_members r)
               = map mr_id (filter (\<lambda>m. mr_class_id m = cr_id first) (db_members db))"
proof -
  have "sorted_wrt (<) (map cr_id (filter (\<lambda>c. cr_name c = name \<and> packageMatches pkg (cr_package c))
          (db_classes db)))"
    using assms(1) by (simp add: storeInvariant_def sorted_wrt_map sorted_wrt_filter)
  then have "list_all (\<lambda>c. cr_id first < cr_id c) others"
    unfolding assms(2) by (simp add: list_all_iff)
  with getClass_of_matches [OF assms(2)] show ?thesis
    by blast
qed

theorem getClass_first_match_witness:
  "storeInvariant exampleStore
   \<and> map cr_id (filter (\<lambda>c. cr_name c = ''Foo'' \<and> packageMatches None (cr_package c))
                   (db_classes exampleStore)) = [1, 3]
   \<and> (\<exists>r. getClass exampleStore ''Foo'' None = Some r
           \<and> cwm_id r = 1
           \<and> map mwd_id (cwm_members r) = [1, 2])"
proof -
  have inv: "storeInvariant exampleStore"
    by code_simp
  have ids: "map cr_id (filter (\<lambda>c. cr_name c = ''Foo'' \<and> packageMatches None (cr_package c))
                   (db_classes exampleStore)) = [1, 3]"
    by code_simp
  then obtain first others where
    m: "filter (\<lambda>c. cr_name c = ''Foo'' \<and> packageMatches None (cr_package c))
          (db_classes exampleStore) = first # others"
    and f: "cr_id first = 1"
    by (auto simp: map_eq_Cons_conv)
  have ms: "map mr_id (filter (\<lambda>m. mr_class_id m = 1) (db_members exampleStore)) = [1, 2]"
    by code_simp
  from getClass_first_match [OF inv m] f ms ids inv show ?thesis
    by auto
qed

lemma splitChar_no_separator: "sep \<notin> set s \<Longrightarrow> splitChar sep s = [s]"
  by (induction s) auto

lemma splitChar_at_separator:
  "sep \<notin> set a \<Longrightarrow> splitChar sep (a @ sep # b) = a # splitChar sep b"
  by (induction a) auto

lemma includesStr_char: "includesStr s [c] = (c \<in> set s)"
  by (induction s) (auto simp: startsWith_def)

lemma splitMethodName_qualified:
  assumes "CHR ''.'' \<notin> set cn" and "CHR ''.'' \<notin> set mn"
  shows "splitMethodName (cn @ ''.'' @ mn) = (Some cn, mn)"
proof -
  have "splitChar (CHR ''.'') (cn @ CHR ''.'' # mn) = [cn, mn]"
    using assms by (simp add: splitChar_at_separator splitChar_no_separator)
  then show ?thesis
    by (simp add: splitMethodName_def includesStr_char)
qed

lemma splitMethodName_bare:
  "CHR ''.'' \<notin> set mn \<Longrightarrow> splitMethodName mn = (None, mn)"
  by (simp add: splitMethodName_def includesStr_char)

text \<open>With distinct class rowids a member row is joined to at most one class row, so the
  members of the rows selected from the join are the member rows that have a selected
  owner.\<close>

lemma filter_unique_id:
  "distinct (map cr_id cs) \<Longrightarrow>
   filter (\<lambda>c. cr_id c = i \<and> R c) cs
     = (if \<exists>c \<in> set cs. cr_id c = i \<and> R c
        then [SOME c. c \<in> set cs \<and> cr_id c = i] else [])"
proof (induction cs)
  case Nil
  show ?case by simp
next
  case (Cons a cs)
  show ?case
  proof (cases "cr_id a = i")
    case True
    with Cons.prems have no: "\<forall>c \<in> set cs. cr_id c \<noteq> i"
      by (auto simp: image_iff)
    then have "filter (\<lambda>c. cr_id c = i \<and> R c) cs = []"
      by (auto simp: filter_empty_conv)
    moreover have "(SOME c. c \<in> set (a # cs) \<and> cr_id c = i) = a"
      using True no by (intro some_equality) auto
    ultimately show ?thesis
      using True no by auto
  next
    case False
    have "(SOME c. c \<in> set (a # cs) \<and> cr_id c = i) = (SOME c. c \<in> set cs \<and> cr_id c = i)"
      using False by (intro arg_cong [where f = Eps]) auto
    with Cons False show ?thesis
      by auto
  qed
qed

lemma join_members:
  assumes "distinct (map cr_id cs)"
  shows "map (\<lambda>(m, c). mr_id m)
           (filter (\<lambda>(m, c). Q m \<and> R c)
              (concat (map (\<lambda>m. map (\<lambda>c. (m, c)) (filter (\<lambda>c. cr_id c = mr_class_id m) cs)) ms)))
         = map mr_id (filter (\<lambda>m. Q m \<and> (\<exists>c \<in> set cs. cr_id c = mr_class_id m \<and> R c)) ms)"
proof (induction ms)
  case Nil
  show ?case by simp
next
  case (Cons m ms)
  have "map (\<lambda>(m, c). mr_id m)
          (filter (\<lambda>(m, c). Q m \<and> R c)
             (map (\<lambda>c. (m, c)) (filter (\<lambda>c. cr_id c = mr_class_id m) cs)))
        = map (\<lambda>c. mr_id m) (filter (\<lambda>c. cr_id c = mr_class_id m \<and> (Q m \<and> R c)) cs)"
    by (simp add: filter_map comp_def conj_commute)
  also have "\<dots> = (if Q m \<and> (\<exists>c \<in> set cs. cr_id c = mr_class_id m \<and> R c) then [mr_id m] else [])"
    using filter_unique_id [OF assms, of "mr_class_id m" "\<lambda>c. Q m \<and> R c"] by auto
  finally show ?case
    using Cons.IH by simp
qed

text \<open>
  C8. In a store the index builder produces (class rowids distinct, every member row owned
  by a class row): for names \<open>Foo\<close> and \<open>bar\<close> without a dot, getMethod("Foo.bar") returns,
  in table order, exactly the member rows named \<open>bar\<close> whose owning class row is named
  \<open>Foo\<close>, each reported with that class name; and getMethod("bar") returns exactly the
  member rows named \<open>bar\<close>, whatever class owns them. Either list may be empty.
\<close>

theorem getMethod_qualified_and_bare:
  assumes "storeInvariant db" and "CHR ''.'' \<notin> set cn" and "CHR ''.'' \<notin> set mn"
  shows "map mwd_id (getMethod db (cn @ ''.'' @ mn) None)
           = map mr_id
               (filter (\<lambda>m. mr_name m = mn
                             \<and> list_ex (\<lambda>c. cr_id c = mr_class_id m \<and> cr_name c = cn) (db_classes db))
                  (db_members db))
         \<and> list_all (\<lambda>r. mwd_name r = mn \<and> mwd_className r = Some cn)
             (getMethod db (cn @ ''.'' @ mn) None)
         \<and> map mwd_id (getMethod db mn None)
             = map mr_id (filter (\<lambda>m. mr_name m = mn) (db_members db))"
proof -
  have dist: "distinct (map cr_id (db_classes db))"
    using assms(1) by (simp add: storeInvariant_def strict_sorted_iff)
  have owned: "\<forall>m \<in> set (db_members db). \<exists>c \<in> set (db_classes db). cr_id c = mr_class_id m"
    using assms(1) by (simp add: storeInvariant_def list_all_iff list_ex_iff)
  have ids: "map mwd_id (map (\<lambda>(m, c). memberDetails m (Some c)) rows)
               = map (\<lambda>(m, c). mr_id m) rows" for rows
    by (simp add: memberDetails_def case_prod_unfold)
  have q: "map mwd_id (getMethod db (cn @ ''.'' @ mn) None)
             = map (\<lambda>(m, c). mr_id m)
                 (filter (\<lambda>(m, c). mr_name m = mn \<and> cr_name c = cn) (memberJoin db))"
    unfolding getMethod_def splitMethodName_qualified [OF assms(2,3)]
    by (simp add: ids packageMatches_None del: map_map)
  have b: "map mwd_id (getMethod db mn None)
             = map (\<lambda>(m, c). mr_id m)
                 (filter (\<lambda>(m, c). mr_name m = mn \<and> True) (memberJoin db))"
    unfolding getMethod_def splitMethodName_bare [OF assms(3)]
    by (simp add: ids packageMatches_None del: map_map)
  have one: "map mwd_id (getMethod db (cn @ ''.'' @ mn) None)
           = map mr_id
               (filter (\<lambda>m. mr_name m = mn
                             \<and> list_ex (\<lambda>c. cr_id c = mr_class_id m \<and> cr_name c = cn) (db_classes db))
                  (db_members db))"
    unfolding q memberJoin_def join_members [OF dist] by (simp add: list_ex_iff)
  have two: "list_all (\<lambda>r. mwd_name r = mn \<and> mwd_className r = Some cn)
             (getMethod db (cn @ ''.'' @ mn) None)"
    unfolding getMethod_def splitMethodName_qualified [OF assms(2,3)]
    by (auto simp: list_all_iff memberDetails_def)
  have "filter (\<lambda>m. mr_name m = mn \<and> (\<exists>c \<in> set (db_classes db). cr_id c = mr_class_id m \<and> True))
          (db_members db) = filter (\<lambda>m. mr_name m = mn) (db_members db)"
    using owned by (intro filter_cong) auto
  then have three: "map mwd_id (getMethod db mn None)
             = map mr_id (filter (\<lambda>m. mr_name m = mn) (db_members db))"
    unfolding b memberJoin_def join_members [OF dist] by simp
  from one two three show ?thesis by blast
qed

theorem getMethod_qualified_and_bare_witness:
  "storeInvariant exampleStore \<and> CHR ''.'' \<notin> set ''Foo'' \<and> CHR ''.'' \<notin> set ''bar''
   \<and> map mwd_id (getMethod exampleStore ''Foo.bar'' None) = [1, 4]
   \<and> map mwd_className (getMethod exampleStore ''Foo.bar'' None) = [Some ''Foo'', Some ''Foo'']
   \<and> map mwd_id (getMethod exampleStore ''bar'' None) = [1, 3, 4]"
proof -
  have inv: "storeInvariant exampleStore"
    by code_simp
  have d: "CHR ''.'' \<notin> set ''Foo''" "CHR ''.'' \<notin> set ''bar''"
    by simp_all
  have ev: "map mr_id
               (filter (\<lambda>m. mr_name m = ''bar''
                             \<and> list_ex (\<lambda>c. cr_id c = mr_class_id m \<and> cr_name c = ''Foo'')
                                 (db_classes exampleStore))
                  (db_members exampleStore)) = [1, 4]"
    "map mr_id (filter (\<lambda>m. mr_name m = ''bar'') (db_members exampleStore)) = [1, 3, 4]"
    "map mwd_className (getMethod exampleStore ''Foo.bar'' None) = [Some ''Foo'', Some ''Foo'']"
    by code_simp+
  from getMethod_qualified_and_bare [OF inv d] ev inv d show ?thesis
    by simp
qed

section \<open>Properties of the reference parser\<close>

text \<open>
  C5, at the input where the code departs from it: a file with two top-level sections of
  the same name. The top-level pass pushes a declaration for each of them (only the nested
  pass looks for the name among the declarations already parsed), so the result holds two
  declarations named Foo, whatever members parseMembers extracts.
\<close>

theorem parseTypedocMarkdown_duplicate_names:
  "map ci_name
     (parseTypedocMarkdown pm ''## Foo\<newline>\<newline>## Foo\<newline>'' ''docs/chain-api-docs/exports.md'')
   = [''Foo'', ''Foo'']"
proof -
  have top: "splitAtLines classSeparator True 0 ''## Foo\<newline>\<newline>## Foo\<newline>''
               = [[], ''Foo\<newline>\<newline>'', ''Foo\<newline>'']"
    by code_simp
  have nested: "splitAtLines nestedSeparator True 0 ''## Foo\<newline>\<newline>## Foo\<newline>''
               = [''## Foo\<newline>\<newline>## Foo\<newline>'']"
    by code_simp
  have line: "firstLineOf ''Foo\<newline>\<newline>'' = ''Foo''" "firstLineOf ''Foo\<newline>'' = ''Foo''"
    by code_simp+
  have name: "nameMatch ''Foo'' = Some ''Foo''"
    by code_simp
  have keep: "''Foo'' \<notin> set skipNames"
    by (simp add: skipNames_def)
  show ?thesis
    unfolding parseTypedocMarkdown_def top nested
    by (simp add: topLevelStep_def nestedStep_def line name keep parseClassSection_def
        startsWith_def Let_def firstLineOf_def trim_def isSpaceJS_def splitChar.simps)
qed

lemma parseClassSection_name:
  "parseClassSection pm name section pkg fp url = Some c \<Longrightarrow> ci_name c = name"
  by (auto simp: parseClassSection_def split: if_splits)

text \<open>The nested pass keeps the names distinct: it adds a declaration only under a name no
  declaration parsed so far has.\<close>

lemma nestedStep_distinct:
  assumes "distinct (map ci_name classes)"
  shows "distinct (map ci_name (nestedStep pm fp classes section))"
proof (cases "nameMatch (firstLineOf section)")
  case None
  with assms show ?thesis by (simp add: nestedStep_def Let_def)
next
  case (Some className)
  show ?thesis
  proof (cases "parseClassSection pm className section (detectPackageFromPath fp) fp
                  (getSourceUrl fp (detectPackageFromPath fp))")
    case None
    with assms Some show ?thesis by (simp add: nestedStep_def Let_def)
  next
    case (Some classInfo)
    then have "ci_name classInfo = className"
      by (rule parseClassSection_name)
    with assms Some \<open>nameMatch (firstLineOf section) = Some className\<close> show ?thesis
      by (auto simp: nestedStep_def Let_def list_ex_iff)
  qed
qed

lemma nested_pass_distinct:
  "distinct (map ci_name classes) \<Longrightarrow>
   distinct (map ci_name (foldl (nestedStep pm fp) classes sections))"
  by (induction sections arbitrary: classes) (simp_all add: nestedStep_distinct)

subsection \<open>The second pass of parseParams\<close>





lemma enrichedFrom_mono:
  "enrichedFrom ms p q \<Longrightarrow> set ms \<subseteq> set ms' \<Longrightarrow> enrichedFrom ms' p q"
  by (auto simp: enrichedFrom_def list_ex_iff)









lemma descMatchHere_mark: "nameMarkHere s \<Longrightarrow> descMatchHere s \<noteq> None"
proof (cases s)
  case Nil
  assume "nameMarkHere s"
  with Nil show ?thesis by (simp add: nameMarkHere_def)
next
  case (Cons b r0)
  assume "nameMarkHere s"
  with Cons obtain c cs where b: "b = CHR ''-'' \<or> b = CHR ''*''"
    and r: "skipQuoteMark (dropWhile isSpaceJS r0) = c # cs" and c: "isWordChar c"
    by (cases "skipQuoteMark (dropWhile isSpaceJS r0)") (auto simp: nameMarkHere_def)
  from r c have "takeWhile isWordChar (skipQuoteMark (dropWhile isSpaceJS r0)) \<noteq> []"
    by simp
  with Cons b show ?thesis
    by (simp add: descMatchHere_def Let_def split_def)
qed

lemma descMatches_mark: "hasNameMark s \<Longrightarrow> descMatches s \<noteq> []"
  unfolding descMatches_def
proof (induction s)
  case Nil
  then show ?case by simp
next
  case (Cons c cs)
  show ?case
  proof (cases "descMatchHere (c # cs)")
    case None
    with descMatchHere_mark [of "c # cs"] have "\<not> nameMarkHere (c # cs)" by auto
    with Cons None show ?thesis by simp
  next
    case (Some x)
    then show ?thesis by (cases x) simp
  qed
qed





text \<open>The same through the member extraction: the member section of \<open>f\<close> has the signature
  \<open>f(a: string)\<close> and the line \<open>- a (number)\<close>, and the parameter of the member has the type
  \<open>number\<close>.\<close>

lemma member_section_type_overwritten:
  "map (\<lambda>m. (mi_name m, mi_signature m, map (\<lambda>p. (p_name p, p_type p)) (mi_params m)))
     (parseMembers ''#### f\<newline>\<newline>```ts\<newline>f(a: string)\<newline>```\<newline>\<newline>- a (number)\<newline>'')
     = [(''f'', ''f(a: string)'', [(''a'', ''number'')])]"
  by code_simp

subsection \<open>splitParams and the top-level argument groups\<close>













lemma paramMatch_empty: "paramMatch [] = None"
  by (simp add: paramMatchHere_def)










subsection \<open>Typed names and the parameter pattern\<close>











subsection \<open>Member extraction from a fenced signature\<close>





























text \<open>A name mark in the text after the block adds a parameter that is no argument group
  of the signature; a group that holds a typed name somewhere inside gives the parameter
  of that name; and the member of a heading section takes its parameters from the first
  line of its fenced block.\<close>

lemma name_mark_in_running_text:
  "map (\<lambda>m. (mi_name m, map p_name (mi_params m)))
     (parseMembers ''```ts\<newline>mint(amount: number)\<newline>```\<newline>Creates a token-class (fungible): see docs'')
     = [(''mint'', [''amount'', ''class''])]"
  by code_simp

lemma typed_name_inside_group:
  "map (\<lambda>m. (mi_name m, map p_name (mi_params m)))
     (parseMembers ''```ts\<newline>foo(options = { a: 1 }, b)\<newline>```'')
     = [(''foo'', [''a''])]
   \<and> map hasTypedName (argumentGroups ''options = { a: 1 }, b'') = [True, False]"
  by code_simp

lemma member_heading_section:
  "map (\<lambda>m. (mi_name m, mi_isAsync m, map (\<lambda>p. (p_name p, p_type p, p_optional p)) (mi_params m)))
     (parseMembers ''#### createToken\<newline>\<newline>```typescript\<newline>createToken(name: string, amount?: number): Promise<Token>\<newline>```\<newline>'')
     = [(''createToken'', True, [(''name'', ''string'', False), (''amount'', ''number'', True)])]"
  by code_simp

text \<open>The class parser run with parseMembers, on a section with one member heading.\<close>

lemma class_section_members:
  "map (\<lambda>c. (ci_name c, ci_package c, map (\<lambda>m. (mi_name m, mi_type m)) (ci_members c)))
     (parseTypedocMarkdown parseMembers
        ''## Foo\<newline>\<newline>A class.\<newline>\<newline>#### bar\<newline>\<newline>```ts\<newline>bar(a: string): void\<newline>```\<newline>''
        ''docs/chain-api-docs/exports.md'')
     = [(''Foo'', ''chain-api'', [(''bar'', ''method'')])]"
  by code_simp

text \<open>The pattern that cuts the argument text out of the signature stops at the first
  closing parenthesis, so an argument list with a parenthesis inside is cut short before
  splitParams sees it: the two groups of \<open>cb: Array<(x: number)>, y: string\<close> give one
  parameter.\<close>

lemma nested_parenthesis_cut_short:
  "sigParamsMatch ''foo(cb: Array<(x: number)>, y: string)'' = Some ''cb: Array<(x: number''
   \<and> map p_name (parseParams [] ''foo(cb: Array<(x: number)>, y: string)'') = [''cb'']
   \<and> argumentGroups ''cb: Array<(x: number)>, y: string''
       = [''cb: Array<(x: number)>'', '' y: string'']"
  by code_simp

end
